theory Spec2Isabelle
  imports Complex_Main "HOL-Library.AList"
begin

section \<open>Python values, dictionaries and exceptions\<close>

text \<open>
  The signal records handed to the scorer are Python dictionaries with string keys whose
  values come from JSON: a number, \<^verbatim>\<open>None\<close> or a string. Numbers are modelled as
  reals (an \<^verbatim>\<open>int\<close> and a \<^verbatim>\<open>float\<close> compare by value in Python); the
  floating-point specials \<^verbatim>\<open>nan\<close> and \<^verbatim>\<open>inf\<close> are not part of the model.
  A dictionary is an association list read with \<open>map_of\<close>, so that insertion order and
  emptiness are those of the Python \<^verbatim>\<open>dict\<close>.
\<close>

type_synonym timestamp = string

datatype pyval = PNone | PNum real | PStr string

datatype exn = TypeError | ValueError | IndexError | RuntimeError

type_synonym pydict = "(string \<times> pyval) list"

text \<open>\<^verbatim>\<open>d.get(k, default)\<close>: the default only when the key is absent.\<close>

definition dict_get :: "pydict \<Rightarrow> string \<Rightarrow> pyval \<Rightarrow> pyval" where
  "dict_get d k dflt = (case map_of d k of None \<Rightarrow> dflt | Some v \<Rightarrow> v)"

text \<open>Sequencing of computations that may raise: the first exception wins.\<close>

definition then_exn :: "exn + 'a \<Rightarrow> ('a \<Rightarrow> exn + 'b) \<Rightarrow> exn + 'b" where
  "then_exn m f = (case m of Inl e \<Rightarrow> Inl e | Inr x \<Rightarrow> f x)"

text \<open>
  \<^verbatim>\<open>v < c\<close> and \<^verbatim>\<open>v > c\<close> against a numeric literal: Python 3 raises
  \<^verbatim>\<open>TypeError\<close> when \<^verbatim>\<open>v\<close> is \<^verbatim>\<open>None\<close> or a string.
\<close>

fun py_lt :: "pyval \<Rightarrow> real \<Rightarrow> exn + bool" where
  "py_lt (PNum x) c = Inr (x < c)"
| "py_lt PNone c = Inl TypeError"
| "py_lt (PStr s) c = Inl TypeError"

fun py_gt :: "pyval \<Rightarrow> real \<Rightarrow> exn + bool" where
  "py_gt (PNum x) c = Inr (x > c)"
| "py_gt PNone c = Inl TypeError"
| "py_gt (PStr s) c = Inl TypeError"

text \<open>\<^verbatim>\<open>min(v, c)\<close> and \<^verbatim>\<open>max(v, c)\<close> compare their arguments, so they raise alike.\<close>

fun py_min :: "pyval \<Rightarrow> real \<Rightarrow> exn + real" where
  "py_min (PNum x) c = Inr (min x c)"
| "py_min PNone c = Inl TypeError"
| "py_min (PStr s) c = Inl TypeError"

fun py_max :: "pyval \<Rightarrow> real \<Rightarrow> exn + real" where
  "py_max (PNum x) c = Inr (max x c)"
| "py_max PNone c = Inl TypeError"
| "py_max (PStr s) c = Inl TypeError"

text \<open>
  Decimal rounding in exact arithmetic: scale by \<open>10 ^ n\<close>, round to the nearest integer
  with a tie going to the even neighbour, scale back. The scorer does not use it: it
  calls the rounding of its number library, which works on binary floating point and is a
  parameter below. This function is the rounding given to the scorers of the examples.
\<close>

definition round_half_even :: "real \<Rightarrow> int" where
  "round_half_even x =
     (let f = \<lfloor>x\<rfloor>; d = x - of_int f in
      if d < 1 / 2 then f else if d > 1 / 2 then f + 1 else if even f then f else f + 1)"

definition py_round :: "real \<Rightarrow> nat \<Rightarrow> real" where
  "py_round x n = of_int (round_half_even (x * 10 ^ n)) / 10 ^ n"

text \<open>The decimal text of an integer, as an f-string prints it.\<close>

function str_nat :: "nat \<Rightarrow> string" where
  "str_nat n = (if n < 10 then [char_of (48 + n)]
                else str_nat (n div 10) @ [char_of (48 + n mod 10)])"
  by pat_completeness auto
termination
  by (relation "measure id") auto

definition str_int :: "int \<Rightarrow> string" where
  "str_int i = (if i < 0 then CHR ''-'' # str_nat (nat (- i)) else str_nat (nat i))"

section \<open>The scorer (\<^verbatim>\<open>models/credit_scorer.py\<close>)\<close>

record score_result =
  ticker :: string
  score :: real
  risk_level :: string
  color :: string
  contributions :: "(string \<times> real) list"
  explanation :: string
  timestamp :: timestamp

text \<open>
  The state of a \<^verbatim>\<open>CreditScorer\<close>. The fitted scaler and random forest are library
  objects: they are taken as functions that may raise, together with the importance
  vector of the fitted model. \<^verbatim>\<open>round(x, n)\<close> is applied to values of the library's
  float type, so it is the library's rounding: \<open>round_float\<close>, a function about which
  nothing is assumed. \<^verbatim>\<open>_generate_explanation\<close> only formats text and catches its own
  exceptions, so it is a total function here.
\<close>

record scorer =
  is_trained :: bool
  scaler_transform :: "pyval list \<Rightarrow> exn + real list"
  model_predict :: "real list \<Rightarrow> exn + real"
  feature_importances :: "real list"
  round_float :: "real \<Rightarrow> nat \<Rightarrow> real"
  generate_explanation ::
    "string \<Rightarrow> real \<Rightarrow> (string \<times> real) list \<Rightarrow> pydict \<Rightarrow> pydict \<Rightarrow> string"

definition feature_names :: "string list" where
  "feature_names =
     [''market_cap_log'', ''debt_to_equity'', ''current_ratio'', ''roe'',
      ''price_change_30d'', ''volatility'', ''volume_avg_log'',
      ''sentiment_score'', ''news_count'', ''vix'', ''treasury_10y'']"

text \<open>The body of the \<^verbatim>\<open>try\<close> block of \<^verbatim>\<open>_extract_features\<close>.\<close>

definition extract_features_try :: "pydict \<Rightarrow> pydict \<Rightarrow> pydict \<Rightarrow> exn + pyval list" where
  "extract_features_try financial_data news_data macro_data =
     then_exn (py_max (dict_get financial_data ''market_cap'' (PNum 1000000000)) 1000000)
       (\<lambda>market_cap.
     then_exn (py_min (dict_get financial_data ''debt_to_equity'' (PNum 1)) 10)
       (\<lambda>debt_to_equity.
     then_exn (py_max (dict_get financial_data ''current_ratio'' (PNum 1)) (1 / 10))
       (\<lambda>current_ratio.
     then_exn (py_max (dict_get financial_data ''volume_avg'' (PNum 1000000)) 1000)
       (\<lambda>volume_avg.
          Inr [PNum (ln market_cap), PNum debt_to_equity, PNum current_ratio,
               dict_get financial_data ''roe'' (PNum (1 / 10)),
               dict_get financial_data ''price_change_30d'' (PNum 0),
               dict_get financial_data ''volatility'' (PNum 1),
               PNum (ln volume_avg),
               dict_get news_data ''sentiment_score'' (PNum (1 / 2)),
               dict_get news_data ''news_count'' (PNum 0),
               dict_get macro_data ''vix'' (PNum 20),
               dict_get macro_data ''treasury_10y'' (PNum 4)]))))"

text \<open>On any exception the function returns the zero vector instead.\<close>

definition extract_features :: "pydict \<Rightarrow> pydict \<Rightarrow> pydict \<Rightarrow> pyval list" where
  "extract_features financial_data news_data macro_data =
     (case extract_features_try financial_data news_data macro_data of
        Inr features \<Rightarrow> features
      | Inl e \<Rightarrow> replicate (length feature_names) (PNum 0))"

text \<open>
  The \<^verbatim>\<open>if score >= 750 / elif score >= 500 / else\<close> chain, which the source writes out
  once in \<^verbatim>\<open>calculate_score\<close> and once in \<^verbatim>\<open>_fallback_score\<close>: risk level and colour.
\<close>

definition risk_band :: "real \<Rightarrow> string \<times> string" where
  "risk_band s =
     (if s \<ge> 750 then (''Low Risk'', ''green'')
      else if s \<ge> 500 then (''Medium Risk'', ''yellow'')
      else (''High Risk'', ''red''))"

text \<open>The three rule adjustments of \<^verbatim>\<open>_fallback_score\<close>, in the order of the source.\<close>

definition fallback_rules :: "pydict \<Rightarrow> pydict \<Rightarrow> exn + int" where
  "fallback_rules financial_data news_data =
     (let base_score = 500;
          debt_to_equity = dict_get financial_data ''debt_to_equity'' (PNum 1);
          roe = dict_get financial_data ''roe'' (PNum 0);
          sentiment = dict_get news_data ''sentiment_score'' (PNum (1 / 2))
      in
      then_exn
        (then_exn (py_lt debt_to_equity (1 / 2)) (\<lambda>lt.
           if lt then Inr (base_score + 100)
           else then_exn (py_gt debt_to_equity 2) (\<lambda>gt.
             Inr (if gt then base_score - 150 else base_score))))
        (\<lambda>base_score.
      then_exn
        (then_exn (py_gt roe (15 / 100)) (\<lambda>gt.
           if gt then Inr (base_score + 100)
           else then_exn (py_lt roe 0) (\<lambda>lt.
             Inr (if lt then base_score - 200 else base_score))))
        (\<lambda>base_score.
      then_exn (py_gt sentiment (6 / 10)) (\<lambda>gt.
           if gt then Inr (base_score + 50)
           else then_exn (py_lt sentiment (4 / 10)) (\<lambda>lt.
             Inr (if lt then base_score - 50 else base_score))))))"

text \<open>
  \<^verbatim>\<open>_fallback_score(financial_data, news_data, ticker="UNKNOWN")\<close>: the rules, the clamp
  and the band inside a \<^verbatim>\<open>try\<close>; the handler returns a fixed result with an empty
  contribution map. The clock reading is the argument \<open>now\<close>.
\<close>

definition fallback_default_ticker :: string where
  "fallback_default_ticker = ''UNKNOWN''"

definition fallback_score ::
  "pydict \<Rightarrow> pydict \<Rightarrow> string \<Rightarrow> timestamp \<Rightarrow> exn + score_result" where
  "fallback_score financial_data news_data tkr now =
     (case fallback_rules financial_data news_data of
        Inr base_score \<Rightarrow>
          (let sc = max 0 (min 1000 base_score);
               band = risk_band (of_int sc)
           in Inr \<lparr>ticker = tkr, score = of_int sc, risk_level = fst band, color = snd band,
                   contributions = [(''fallback'', 1)],
                   explanation = ''Fallback scoring used. Score: '' @ str_int sc @ ''/1000'',
                   timestamp = now\<rparr>)
      | Inl e \<Rightarrow>
          Inr \<lparr>ticker = tkr, score = 500, risk_level = ''Medium Risk'', color = ''yellow'',
                contributions = [], explanation = ''Error in scoring'', timestamp = now\<rparr>)"

text \<open>
  The loop over \<^verbatim>\<open>enumerate(self.feature_names)\<close>; indexing past the end of the scaled
  vector or of the importance vector raises \<^verbatim>\<open>IndexError\<close>.
\<close>

fun contributions_loop ::
  "(real \<Rightarrow> nat \<Rightarrow> real) \<Rightarrow> string list \<Rightarrow> nat \<Rightarrow> real list \<Rightarrow> real list
     \<Rightarrow> (string \<times> real) list \<Rightarrow> exn + (string \<times> real) list" where
  "contributions_loop rnd [] i features_scaled feature_importance acc = Inr acc"
| "contributions_loop rnd (feature_name # rest) i features_scaled feature_importance acc =
     (if i < length features_scaled \<and> i < length feature_importance
      then contributions_loop rnd rest (Suc i) features_scaled feature_importance
             (AList.update feature_name
                (rnd (features_scaled ! i * feature_importance ! i * 100) 2) acc)
      else Inl IndexError)"

text \<open>The \<^verbatim>\<open>try\<close> block of \<^verbatim>\<open>calculate_score\<close>.\<close>

definition calculate_score_try ::
  "scorer \<Rightarrow> string \<Rightarrow> pydict \<Rightarrow> pydict \<Rightarrow> pydict \<Rightarrow> timestamp \<Rightarrow> exn + score_result" where
  "calculate_score_try self tkr financial_data news_data macro_data now =
     (if \<not> is_trained self
      then fallback_score financial_data news_data fallback_default_ticker now
      else
        (let features = extract_features financial_data news_data macro_data in
         then_exn (scaler_transform self features) (\<lambda>features_scaled.
         then_exn (model_predict self features_scaled) (\<lambda>raw.
           (let sc = max 0 (min 1000 raw) in
            then_exn (contributions_loop (round_float self) feature_names 0 features_scaled
                        (feature_importances self) []) (\<lambda>contribs.
              (let band = risk_band sc;
                   expl = generate_explanation self tkr sc contribs financial_data news_data
               in Inr \<lparr>ticker = tkr, score = round_float self sc 1, risk_level = fst band,
                       color = snd band, contributions = contribs, explanation = expl,
                       timestamp = now\<rparr>)))))))"

text \<open>\<^verbatim>\<open>calculate_score\<close>: the handler calls the fallback with the ticker.\<close>

definition calculate_score ::
  "scorer \<Rightarrow> string \<Rightarrow> pydict \<Rightarrow> pydict \<Rightarrow> pydict \<Rightarrow> timestamp \<Rightarrow> exn + score_result" where
  "calculate_score self tkr financial_data news_data macro_data now =
     (case calculate_score_try self tkr financial_data news_data macro_data now of
        Inr result \<Rightarrow> Inr result
      | Inl e \<Rightarrow> fallback_score financial_data news_data tkr now)"

text \<open>
  The rule-based reference as the specification words it: base 500, the three additive
  adjustments, clamped to the range from 0 to 1000; and the tier thresholds 750 and 500.
\<close>

definition spec_fallback_score :: "real \<Rightarrow> real \<Rightarrow> real \<Rightarrow> int" where
  "spec_fallback_score debt_to_equity roe sentiment =
     max 0 (min 1000
       (500
        + (if debt_to_equity < 1 / 2 then 100 else if debt_to_equity > 2 then - 150 else 0)
        + (if roe > 15 / 100 then 100 else if roe < 0 then - 200 else 0)
        + (if sentiment > 6 / 10 then 50 else if sentiment < 4 / 10 then - 50 else 0)))"

definition spec_tier :: "real \<Rightarrow> string" where
  "spec_tier s = (if s \<ge> 750 then ''Low Risk'' else if s \<ge> 500 then ''Medium Risk'' else ''High Risk'')"


section \<open>The durable cache (\<^verbatim>\<open>services/cache_service.py\<close>)\<close>

record historical_point =
  hp_timestamp :: timestamp
  hp_score :: real
  hp_risk_level :: string

record processed_data =
  scores :: "(string \<times> score_result) list"
  data_timestamp :: "timestamp option"
  processing_timestamp :: timestamp
  ticker_count :: nat

text \<open>
  The JSON documents the orchestrator keeps in Redis: a processed batch under
  \<^verbatim>\<open>json:latest_scores\<close> and a list of points under \<^verbatim>\<open>json:history:<ticker>\<close>.
  The store maps a key to its document; expiry of a key is not modelled.
\<close>

datatype json = JBatch processed_data | JHistory "historical_point list"

type_synonym redis = "string \<Rightarrow> json option"

text \<open>Python truthiness: a batch is a dictionary with four keys, a list is true when non-empty.\<close>

fun truthy :: "json \<Rightarrow> bool" where
  "truthy (JBatch b) = True"
| "truthy (JHistory h) = (h \<noteq> [])"

text \<open>
  What the outside world does during one call: which Redis commands raise, what the
  signal source delivers, how the executor treats each scoring task, and the clock.
\<close>

record ingested_data =
  financial :: "(string \<times> pydict) list"
  news :: "(string \<times> pydict) list"
  macro :: pydict
  ingest_timestamp :: timestamp

datatype ingest_outcome = IngestRaises exn | IngestReturns "ingested_data option"

datatype executor_outcome = Runs | ExecutorRaises exn | TaskFails exn

record world =
  get_fails :: "string \<Rightarrow> bool"
  setex_fails :: "string \<Rightarrow> bool"
  ingest :: ingest_outcome
  run_in_executor :: "string \<Rightarrow> executor_outcome"
  score_clock :: "string \<Rightarrow> timestamp"
  processing_clock :: timestamp
  history_clock :: timestamp
  update_clock :: timestamp

text \<open>
  \<^verbatim>\<open>Cache.get_json\<close> and \<^verbatim>\<open>Cache.set_json\<close>: both catch every exception of the client;
  the read then yields \<^verbatim>\<open>None\<close>, the write \<^verbatim>\<open>False\<close>.
\<close>

definition json_key :: "string \<Rightarrow> string" where
  "json_key key = ''json:'' @ key"

definition get_json :: "world \<Rightarrow> redis \<Rightarrow> string \<Rightarrow> json option" where
  "get_json w r key =
     (if get_fails w (json_key key) then None else r (json_key key))"

definition set_json :: "world \<Rightarrow> redis \<Rightarrow> string \<Rightarrow> json \<Rightarrow> nat \<Rightarrow> redis \<times> bool" where
  "set_json w r key v ttl =
     (if setex_fails w (json_key key) then (r, False)
      else (r(json_key key \<mapsto> v), True))"

section \<open>The signal source (\<^verbatim>\<open>services/data_ingestion.py\<close>)\<close>

definition tickers :: "string list" where
  "tickers = [''AAPL'', ''GOOGL'', ''MSFT'', ''TSLA'', ''JPM'', ''BAC'', ''WMT'', ''JNJ'',
              ''PFE'', ''XOM'']"

text \<open>An entry of \<^verbatim>\<open>asyncio.gather(..., return_exceptions=True)\<close>.\<close>

datatype 'a gathered = Returned 'a | Raised exn

text \<open>
  The three fetchers are calls to outside services; each returns a dictionary, the
  empty one when the fetch failed. \<open>ingestion_fault\<close> is an exception inside the
  \<^verbatim>\<open>try\<close> block of \<^verbatim>\<open>ingest_all_data\<close>.
\<close>

record signal_source =
  get_financial_data :: "string \<Rightarrow> pydict gathered"
  get_news_sentiment :: "string \<Rightarrow> pydict gathered"
  get_macro_data :: "pydict gathered"
  ingestion_fault :: "exn option"

fun ingest_loop ::
  "signal_source \<Rightarrow> string list \<Rightarrow> (string \<times> pydict) list \<times> (string \<times> pydict) list
     \<Rightarrow> (string \<times> pydict) list \<times> (string \<times> pydict) list" where
  "ingest_loop src [] (financial_data, news_data) = (financial_data, news_data)"
| "ingest_loop src (tkr # rest) (financial_data, news_data) =
     ingest_loop src rest
       ((case get_financial_data src tkr of
           Returned d \<Rightarrow> AList.update tkr d financial_data
         | Raised e \<Rightarrow> financial_data),
        (case get_news_sentiment src tkr of
           Returned d \<Rightarrow> AList.update tkr d news_data
         | Raised e \<Rightarrow> news_data))"

definition ingest_all_data :: "signal_source \<Rightarrow> timestamp \<Rightarrow> ingested_data option" where
  "ingest_all_data src now =
     (case ingestion_fault src of
        Some e \<Rightarrow> None
      | None \<Rightarrow>
          (let fn = ingest_loop src tickers ([], []);
               macro_data = (case get_macro_data src of Returned d \<Rightarrow> d | Raised e \<Rightarrow> [])
           in Some \<lparr>financial = fst fn, news = snd fn, macro = macro_data,
                    ingest_timestamp = now\<rparr>))"

section \<open>The orchestrator (\<^verbatim>\<open>services/processing.py\<close>)\<close>

text \<open>
  The \<^verbatim>\<open>ProcessingService\<close> with the cache it talks to. \<open>ingest_calls\<close> and
  \<open>score_calls\<close> are counters of the model: how often ingestion was started and how
  many scoring tasks were scheduled.
\<close>

record system =
  processing :: bool
  last_update :: "timestamp option"
  cache :: redis
  ingest_calls :: nat
  score_calls :: nat

definition initial :: system where
  "initial = \<lparr>processing = False, last_update = None, cache = Map.empty,
              ingest_calls = 0, score_calls = 0\<rparr>"

text \<open>What a call returns: the empty dictionary or a document.\<close>

datatype refresh_result = REmpty | RValue json

text \<open>The keys of the returned dictionary (a history list has none).\<close>

fun result_keys :: "refresh_result \<Rightarrow> string list" where
  "result_keys REmpty = []"
| "result_keys (RValue (JBatch b)) =
     [''scores'', ''data_timestamp'', ''processing_timestamp'', ''ticker_count'']"
| "result_keys (RValue (JHistory h)) = []"

text \<open>\<^verbatim>\<open>m.get(k, {})\<close> on a dictionary of dictionaries.\<close>

definition dict_of :: "(string \<times> pydict) list \<Rightarrow> string \<Rightarrow> pydict" where
  "dict_of m k = (case map_of m k of None \<Rightarrow> [] | Some d \<Rightarrow> d)"

text \<open>\<^verbatim>\<open>xs[-n:]\<close> for a positive literal \<open>n\<close>: the last \<open>n\<close> elements, all if there are fewer.\<close>

definition last_n :: "nat \<Rightarrow> 'a list \<Rightarrow> 'a list" where
  "last_n n xs = drop (length xs - n) xs"

text \<open>An entry of the list \<^verbatim>\<open>results\<close>: a score dictionary, the empty dictionary, an exception.\<close>

datatype task_result = Dict score_result | EmptyDict | Exc exn

text \<open>\<^verbatim>\<open>_calculate_score_async\<close>: exceptions of the call become the empty dictionary.\<close>

definition calculate_score_async ::
  "world \<Rightarrow> scorer \<Rightarrow> string \<Rightarrow> pydict \<Rightarrow> pydict \<Rightarrow> pydict \<Rightarrow> task_result" where
  "calculate_score_async w self tkr financial_data news_data macro_data =
     (case run_in_executor w tkr of
        TaskFails e \<Rightarrow> Exc e
      | ExecutorRaises e \<Rightarrow> EmptyDict
      | Runs \<Rightarrow>
          (case calculate_score self tkr financial_data news_data macro_data (score_clock w tkr) of
             Inr result \<Rightarrow> Dict result
           | Inl e \<Rightarrow> EmptyDict))"

text \<open>The loop that builds \<^verbatim>\<open>tasks\<close>: one task for each key with a non-empty record.\<close>

fun scoring_tasks ::
  "string list \<Rightarrow> (string \<times> pydict) list \<Rightarrow> (string \<times> pydict) list
     \<Rightarrow> (string \<times> pydict \<times> pydict) list" where
  "scoring_tasks [] financial_data news_data = []"
| "scoring_tasks (tkr # rest) financial_data news_data =
     (let finData = dict_of financial_data tkr;
          newsDataTicker = dict_of news_data tkr
      in if finData \<noteq> []
         then (tkr, finData, newsDataTicker) # scoring_tasks rest financial_data news_data
         else scoring_tasks rest financial_data news_data)"

text \<open>The loop over \<^verbatim>\<open>results\<close>: only a dictionary with a ticker is stored, under that ticker.\<close>

fun collect_scores ::
  "task_result list \<Rightarrow> (string \<times> score_result) list \<Rightarrow> (string \<times> score_result) list" where
  "collect_scores [] acc = acc"
| "collect_scores (Dict result # rest) acc =
     collect_scores rest (AList.update (ticker result) result acc)"
| "collect_scores (EmptyDict # rest) acc = collect_scores rest acc"
| "collect_scores (Exc e # rest) acc = collect_scores rest acc"

text \<open>
  \<^verbatim>\<open>_store_historical_scores\<close>. \<^verbatim>\<open>get_json(hist_key) or []\<close> is the stored list, or the
  empty list when nothing is stored; a stored dictionary has no \<^verbatim>\<open>append\<close>, which
  raises and leaves the loop through the handler. Both handlers catch every exception,
  so the model gives the exception of a list operation on a dictionary one name.
\<close>

definition hist_key :: "string \<Rightarrow> string" where
  "hist_key tkr = ''history:'' @ tkr"

fun history_or_empty :: "json option \<Rightarrow> exn + historical_point list" where
  "history_or_empty None = Inr []"
| "history_or_empty (Some (JHistory h)) = Inr h"
| "history_or_empty (Some (JBatch b)) = Inl TypeError"

text \<open>The point appended for one entity: the clock reading, the score and the risk level.\<close>

definition new_point :: "world \<Rightarrow> score_result \<Rightarrow> historical_point" where
  "new_point w score_data =
     \<lparr>hp_timestamp = history_clock w, hp_score = score score_data,
      hp_risk_level = risk_level score_data\<rparr>"

fun store_historical_scores ::
  "world \<Rightarrow> (string \<times> score_result) list \<Rightarrow> redis \<Rightarrow> redis" where
  "store_historical_scores w [] r = r"
| "store_historical_scores w ((tkr, score_data) # rest) r =
     (case history_or_empty (get_json w r (hist_key tkr)) of
        Inl e \<Rightarrow> r
      | Inr history \<Rightarrow>
          (let history = history @ [new_point w score_data];
               history = (if length history > 100 then last_n 100 history else history)
           in store_historical_scores w rest
                (fst (set_json w r (hist_key tkr) (JHistory history) 86400))))"

text \<open>\<^verbatim>\<open>get_ticker_history\<close>: slicing a stored dictionary raises, and the handler returns \<^verbatim>\<open>[]\<close>.\<close>

definition get_ticker_history :: "world \<Rightarrow> redis \<Rightarrow> string \<Rightarrow> historical_point list" where
  "get_ticker_history w r tkr =
     (case history_or_empty (get_json w r (hist_key tkr)) of
        Inr history \<Rightarrow> last_n 50 history
      | Inl e \<Rightarrow> [])"

text \<open>
  \<^verbatim>\<open>process_all_scores\<close>, in the pieces between which the coroutine can be suspended.
  The guard branch reads the cache and returns at once.
\<close>

definition refresh_guard :: "world \<Rightarrow> system \<Rightarrow> refresh_result" where
  "refresh_guard w s =
     (case get_json w (cache s) ''latest_scores'' of
        None \<Rightarrow> REmpty
      | Some v \<Rightarrow> if truthy v then RValue v else REmpty)"

text \<open>Past the guard the flag is set and ingestion is started.\<close>

definition refresh_begin :: "system \<Rightarrow> system" where
  "refresh_begin s = s\<lparr>processing := True, ingest_calls := ingest_calls s + 1\<rparr>"

text \<open>The \<^verbatim>\<open>try\<close> block, from the result of ingestion on.\<close>

definition refresh_try :: "world \<Rightarrow> scorer \<Rightarrow> system \<Rightarrow> exn + refresh_result \<times> system" where
  "refresh_try w self s =
     (case ingest w of
        IngestRaises e \<Rightarrow> Inl e
      | IngestReturns None \<Rightarrow> Inr (REmpty, s)
      | IngestReturns (Some data) \<Rightarrow>
          (let tasks = scoring_tasks (map fst (financial data)) (financial data) (news data);
               results = map (\<lambda>(tkr, finData, newsDataTicker).
                                calculate_score_async w self tkr finData newsDataTicker (macro data))
                             tasks;
               scores = collect_scores results [];
               processedData = \<lparr>scores = scores,
                                 data_timestamp = Some (ingest_timestamp data),
                                 processing_timestamp = processing_clock w,
                                 ticker_count = length scores\<rparr>;
               r = fst (set_json w (cache s) ''latest_scores'' (JBatch processedData) 3600);
               r = store_historical_scores w scores r
           in Inr (RValue (JBatch processedData),
                   s\<lparr>cache := r, last_update := Some (update_clock w),
                     score_calls := score_calls s + length tasks\<rparr>)))"

text \<open>The handler returns the empty dictionary; \<^verbatim>\<open>finally\<close> clears the flag.\<close>

definition refresh_run :: "world \<Rightarrow> scorer \<Rightarrow> system \<Rightarrow> refresh_result \<times> system" where
  "refresh_run w self s =
     (let (result, s') = (case refresh_try w self s of
                            Inr done \<Rightarrow> done
                          | Inl e \<Rightarrow> (REmpty, s))
      in (result, s'\<lparr>processing := False\<rparr>))"

definition process_all_scores :: "world \<Rightarrow> scorer \<Rightarrow> system \<Rightarrow> refresh_result \<times> system" where
  "process_all_scores w self s =
     (if processing s then (refresh_guard w s, s)
      else refresh_run w self (refresh_begin s))"

text \<open>\<^verbatim>\<open>get_latest_scores\<close>.\<close>

definition get_latest_scores :: "world \<Rightarrow> scorer \<Rightarrow> system \<Rightarrow> refresh_result \<times> system" where
  "get_latest_scores w self s =
     (case get_json w (cache s) ''latest_scores'' of
        None \<Rightarrow> process_all_scores w self s
      | Some v \<Rightarrow> if truthy v then (RValue v, s) else process_all_scores w self s)"

text \<open>
  Names for two values of the \<^verbatim>\<open>try\<close> block, used to state its result: the list
  \<^verbatim>\<open>results\<close> that \<^verbatim>\<open>asyncio.gather\<close> returns, and the dictionary
  \<^verbatim>\<open>processedData\<close>.
\<close>

definition gathered_results :: "world \<Rightarrow> scorer \<Rightarrow> ingested_data \<Rightarrow> task_result list" where
  "gathered_results w self data =
     map (\<lambda>(tkr, finData, newsDataTicker).
            calculate_score_async w self tkr finData newsDataTicker (macro data))
         (scoring_tasks (map fst (financial data)) (financial data) (news data))"

definition batch_of :: "world \<Rightarrow> scorer \<Rightarrow> ingested_data \<Rightarrow> processed_data" where
  "batch_of w self data =
     \<lparr>scores = collect_scores (gathered_results w self data) [],
      data_timestamp = Some (ingest_timestamp data),
      processing_timestamp = processing_clock w,
      ticker_count = length (collect_scores (gathered_results w self data) [])\<rparr>"

text \<open>
  Calls on one event loop. A call of \<^verbatim>\<open>process_all_scores\<close> runs without interruption
  up to its first suspension (\<open>Invoke\<close>): it either returns through the guard, or sets the
  flag, starts ingestion and is suspended. A suspended refresh later runs to its end
  (\<open>Resume\<close>); every write to the service and to the two cache keys happens in that last
  piece. The second component of a configuration counts the suspended refreshes.
\<close>

datatype event = Invoke world | Resume world

inductive run :: "scorer \<Rightarrow> system \<times> nat \<Rightarrow> event list \<Rightarrow> system \<times> nat \<Rightarrow> bool"
  for self :: scorer where
  run_nil: "run self c [] c"
| run_guarded:
    "run self c evs (s, n) \<Longrightarrow> processing s \<Longrightarrow> run self c (evs @ [Invoke w]) (s, n)"
| run_begin:
    "run self c evs (s, n) \<Longrightarrow> \<not> processing s
       \<Longrightarrow> run self c (evs @ [Invoke w]) (refresh_begin s, Suc n)"
| run_resume:
    "run self c evs (s, Suc n)
       \<Longrightarrow> run self c (evs @ [Resume w]) (snd (refresh_run w self s), n)"


section \<open>Concrete inputs for the examples\<close>

text \<open>
  A trained scorer whose model always predicts \<open>raw\<close>, whose scaler refuses a feature
  vector that holds a string (it cannot be converted to a number) and accepts every
  other one, and whose rounding is the decimal rounding above.
\<close>

definition example_scorer :: "real \<Rightarrow> scorer" where
  "example_scorer raw =
     \<lparr>is_trained = True,
      scaler_transform =
        (\<lambda>features. if list_ex (\<lambda>v. case v of PStr s \<Rightarrow> True | _ \<Rightarrow> False) features
                     then Inl ValueError else Inr (replicate 11 0)),
      model_predict = (\<lambda>x. Inr raw),
      feature_importances = replicate 11 0,
      round_float = py_round,
      generate_explanation = (\<lambda>tkr sc contribs fin nws. tkr)\<rparr>"

text \<open>
  A world in which Redis answers, the executor runs every task, and ingestion has the
  given outcome; a signal source whose every fetch fails; and a point numbered \<open>i\<close>.
\<close>

definition example_world :: "ingest_outcome \<Rightarrow> world" where
  "example_world outcome =
     \<lparr>get_fails = (\<lambda>k. False), setex_fails = (\<lambda>k. False), ingest = outcome,
      run_in_executor = (\<lambda>t. Runs), score_clock = (\<lambda>t. ''2025-01-01T00:00:01''),
      processing_clock = ''2025-01-01T00:00:02'', history_clock = ''2025-01-01T00:00:03'',
      update_clock = ''2025-01-01T00:00:04''\<rparr>"

definition failing_source :: signal_source where
  "failing_source =
     \<lparr>get_financial_data = (\<lambda>t. Returned []),
      get_news_sentiment = (\<lambda>t. Returned [(''sentiment_score'', PNum (1 / 2)),
                                             (''news_count'', PNum 0)]),
      get_macro_data = Returned [], ingestion_fault = None\<rparr>"

definition example_data :: ingested_data where
  "example_data =
     \<lparr>financial = [(''AAPL'', [(''debt_to_equity'', PNum (3 / 10)), (''roe'', PNum (1 / 5))]),
                   (''JPM'', [])],
      news = [(''AAPL'', [(''sentiment_score'', PNum (4 / 5))])],
      macro = [], ingest_timestamp = ''2025-01-01T00:00:00''\<rparr>"

definition example_result :: score_result where
  "example_result =
     \<lparr>ticker = ''AAPL'', score = 750, risk_level = ''Low Risk'', color = ''green'',
      contributions = [(''fallback'', 1)],
      explanation = ''Fallback scoring used. Score: 750/1000'',
      timestamp = ''2025-01-01T00:00:01''\<rparr>"

definition point :: "nat \<Rightarrow> historical_point" where
  "point i = \<lparr>hp_timestamp = str_nat i, hp_score = 500, hp_risk_level = ''Medium Risk''\<rparr>"

text \<open>The points numbered from \<open>i\<close> up to \<open>j - 1\<close>, and a cache holding the points 1 to 100.\<close>

definition entries :: "nat \<Rightarrow> nat \<Rightarrow> historical_point list" where
  "entries i j = map point [i..<j]"

definition full_history :: redis where
  "full_history = [json_key (hist_key ''AAPL'') \<mapsto> JHistory (entries 1 101)]"

text \<open>A raw prediction just below the threshold 750.\<close>

definition near_threshold_raw :: real where
  "near_threshold_raw = 74996 / 100"

section \<open>Properties of the scorer\<close>

lemma then_exn_simps [simp]:
  "then_exn (Inl e) f = Inl e" "then_exn (Inr x) f = f x"
  by (simp_all add: then_exn_def)

lemma round_half_even_bounds:
  "\<lfloor>x\<rfloor> \<le> round_half_even x" "round_half_even x \<le> \<lfloor>x\<rfloor> + 1"
  by (simp_all add: round_half_even_def Let_def)

lemma round_half_even_of_int [simp]: "round_half_even (of_int k) = k"
  by (simp add: round_half_even_def Let_def)

lemma round_half_even_le:
  assumes "x \<le> of_int k" shows "round_half_even x \<le> k"
proof (cases "x = of_int k")
  case True then show ?thesis by simp
next
  case False
  with assms have "x < of_int k" by simp
  then have "\<lfloor>x\<rfloor> < k" by (simp add: floor_less_iff)
  with round_half_even_bounds(2) [of x] show ?thesis by linarith
qed

lemma round_half_even_ge:
  assumes "of_int k \<le> x" shows "k \<le> round_half_even x"
proof -
  from assms have "k \<le> \<lfloor>x\<rfloor>" by (simp add: le_floor_iff)
  with round_half_even_bounds(1) [of x] show ?thesis by linarith
qed

lemma py_round_1_range:
  assumes "0 \<le> s" "s \<le> 1000"
  shows "0 \<le> py_round s 1 \<and> py_round s 1 \<le> 1000"
proof -
  have "of_int 0 \<le> s * 10" using assms by simp
  then have a: "0 \<le> round_half_even (s * 10)" by (rule round_half_even_ge)
  have "s * 10 \<le> of_int 10000" using assms by simp
  then have b: "round_half_even (s * 10) \<le> 10000" by (rule round_half_even_le)
  have "real_of_int (round_half_even (s * 10)) \<le> 10000" using b by linarith
  with a show ?thesis by (simp add: py_round_def)
qed

lemma fallback_score_total:
  "\<exists>res. fallback_score fin nws tkr now = Inr res"
  by (simp add: fallback_score_def Let_def split: sum.split)


lemma spec_tier_band: "fst (risk_band s) = spec_tier s"
  by (simp add: risk_band_def spec_tier_def)

lemma fallback_rules_range:
  assumes "fallback_rules fin nws = Inr b"
  shows "100 \<le> b \<and> b \<le> 750"
proof -
  have one: "\<And>v c1 c2 (x::int) y z r. then_exn (py_lt v c1) (\<lambda>lt. if lt then Inr x
           else then_exn (py_gt v c2) (\<lambda>gt. Inr (if gt then y else z))) = Inr r \<Longrightarrow> r = x \<or> r = y \<or> r = z"
    subgoal for v by (cases v) (auto split: if_splits)
    done
  have two: "\<And>v c1 c2 (x::int) y z r. then_exn (py_gt v c1) (\<lambda>gt. if gt then Inr x
           else then_exn (py_lt v c2) (\<lambda>lt. Inr (if lt then y else z))) = Inr r \<Longrightarrow> r = x \<or> r = y \<or> r = z"
    subgoal for v by (cases v) (auto split: if_splits)
    done
  from assms obtain b1 b2 where
    b1: "then_exn (py_lt (dict_get fin ''debt_to_equity'' (PNum 1)) (1 / 2)) (\<lambda>lt.
           if lt then Inr (500 + 100)
           else then_exn (py_gt (dict_get fin ''debt_to_equity'' (PNum 1)) 2) (\<lambda>gt.
             Inr (if gt then 500 - 150 else 500))) = Inr b1"
    and b2: "then_exn (py_gt (dict_get fin ''roe'' (PNum 0)) (15 / 100)) (\<lambda>gt.
           if gt then Inr (b1 + 100)
           else then_exn (py_lt (dict_get fin ''roe'' (PNum 0)) 0) (\<lambda>lt.
             Inr (if lt then b1 - 200 else b1))) = Inr b2"
    and b3: "then_exn (py_gt (dict_get nws ''sentiment_score'' (PNum (1 / 2))) (6 / 10)) (\<lambda>gt.
           if gt then Inr (b2 + 50)
           else then_exn (py_lt (dict_get nws ''sentiment_score'' (PNum (1 / 2))) (4 / 10)) (\<lambda>lt.
             Inr (if lt then b2 - 50 else b2))) = Inr b"
    unfolding fallback_rules_def Let_def
    by (auto simp: then_exn_def split: sum.splits)
  from one [OF b1] have "b1 = 600 \<or> b1 = 350 \<or> b1 = 500" by simp
  moreover from two [OF b2] have "b2 = b1 + 100 \<or> b2 = b1 - 200 \<or> b2 = b1" .
  moreover from two [OF b3] have "b = b2 + 50 \<or> b = b2 - 50 \<or> b = b2" .
  ultimately show ?thesis by auto
qed

lemma fallback_score_Inr:
  assumes "fallback_rules fin nws = Inr b"
  shows "fallback_score fin nws tkr now =
     Inr \<lparr>ticker = tkr, score = of_int b, risk_level = spec_tier (of_int b),
           color = snd (risk_band (of_int b)), contributions = [(''fallback'', 1)],
           explanation = ''Fallback scoring used. Score: '' @ str_int b @ ''/1000'',
           timestamp = now\<rparr>"
proof -
  from fallback_rules_range [OF assms] have "max 0 (min 1000 b) = b" by simp
  then show ?thesis by (simp add: fallback_score_def assms Let_def spec_tier_band)
qed

lemma fallback_score_Inl:
  assumes "fallback_rules fin nws = Inl e"
  shows "fallback_score fin nws tkr now =
     Inr \<lparr>ticker = tkr, score = 500, risk_level = ''Medium Risk'', color = ''yellow'',
           contributions = [], explanation = ''Error in scoring'', timestamp = now\<rparr>"
  by (simp add: fallback_score_def assms)


lemma fallback_rules_numeric:
  assumes "dict_get fin ''debt_to_equity'' (PNum 1) = PNum d"
      and "dict_get fin ''roe'' (PNum 0) = PNum r"
      and "dict_get nws ''sentiment_score'' (PNum (1 / 2)) = PNum s"
  shows "fallback_rules fin nws =
     Inr (500
        + (if d < 1 / 2 then 100 else if d > 2 then - 150 else 0)
        + (if r > 15 / 100 then 100 else if r < 0 then - 200 else 0)
        + (if s > 6 / 10 then 50 else if s < 4 / 10 then - 50 else 0))"
  unfolding fallback_rules_def Let_def assms by simp

lemma fallback_score_numeric:
  assumes "dict_get fin ''debt_to_equity'' (PNum 1) = PNum d"
      and "dict_get fin ''roe'' (PNum 0) = PNum r"
      and "dict_get nws ''sentiment_score'' (PNum (1 / 2)) = PNum s"
  shows "fallback_score fin nws tkr now =
     Inr \<lparr>ticker = tkr, score = of_int (spec_fallback_score d r s),
           risk_level = spec_tier (of_int (spec_fallback_score d r s)),
           color = snd (risk_band (of_int (spec_fallback_score d r s))),
           contributions = [(''fallback'', 1)],
           explanation = ''Fallback scoring used. Score: ''
                           @ str_int (spec_fallback_score d r s) @ ''/1000'',
           timestamp = now\<rparr>"
proof -
  let ?b = "500
        + (if d < 1 / 2 then 100 else if d > 2 then - 150 else 0)
        + (if r > 15 / 100 then 100 else if r < 0 then - 200 else 0)
        + (if s > 6 / 10 then 50 else if s < 4 / 10 then - 50 else (0::int))"
  have rules: "fallback_rules fin nws = Inr ?b"
    by (rule fallback_rules_numeric [OF assms])
  from fallback_rules_range [OF rules] have "spec_fallback_score d r s = ?b"
    unfolding spec_fallback_score_def by linarith
  with fallback_score_Inr [OF rules, of tkr now] show ?thesis by simp
qed

lemma not_num_cases: "(\<forall>x. v \<noteq> PNum x) \<Longrightarrow> v = PNone \<or> (\<exists>s. v = PStr s)"
  by (cases v) auto

lemma rule_raises_lt:
  "(\<forall>x. v \<noteq> PNum x) \<Longrightarrow> then_exn (py_lt v c) f = Inl TypeError"
  by (cases v) auto

lemma rule_raises_gt:
  "(\<forall>x. v \<noteq> PNum x) \<Longrightarrow> then_exn (py_gt v c) f = Inl TypeError"
  by (cases v) auto

lemma then_exn_isl: "isl m \<Longrightarrow> isl (then_exn m f)"
  by (cases m) simp_all

lemma then_exn_isl_after: "(\<And>x. isl (f x)) \<Longrightarrow> isl (then_exn m f)"
  by (cases m) simp_all

lemma fallback_rules_raises:
  assumes "(\<forall>d. dict_get fin ''debt_to_equity'' (PNum 1) \<noteq> PNum d)
         \<or> (\<forall>r. dict_get fin ''roe'' (PNum 0) \<noteq> PNum r)
         \<or> (\<forall>s. dict_get nws ''sentiment_score'' (PNum (1 / 2)) \<noteq> PNum s)"
  shows "isl (fallback_rules fin nws)"
  using assms
proof (elim disjE)
  assume "\<forall>d. dict_get fin ''debt_to_equity'' (PNum 1) \<noteq> PNum d"
  then show ?thesis
    unfolding fallback_rules_def Let_def by (simp add: rule_raises_lt)
next
  assume a: "\<forall>r. dict_get fin ''roe'' (PNum 0) \<noteq> PNum r"
  show ?thesis
    unfolding fallback_rules_def Let_def
    by (rule then_exn_isl_after, rule then_exn_isl, simp add: rule_raises_gt [OF a])
next
  assume a: "\<forall>s. dict_get nws ''sentiment_score'' (PNum (1 / 2)) \<noteq> PNum s"
  show ?thesis
    unfolding fallback_rules_def Let_def
    by (rule then_exn_isl_after, rule then_exn_isl_after, simp add: rule_raises_gt [OF a])
qed

lemma fallback_score_non_numeric:
  assumes "(\<forall>d. dict_get fin ''debt_to_equity'' (PNum 1) \<noteq> PNum d)
         \<or> (\<forall>r. dict_get fin ''roe'' (PNum 0) \<noteq> PNum r)
         \<or> (\<forall>s. dict_get nws ''sentiment_score'' (PNum (1 / 2)) \<noteq> PNum s)"
  shows "fallback_score fin nws tkr now =
     Inr \<lparr>ticker = tkr, score = 500, risk_level = ''Medium Risk'', color = ''yellow'',
           contributions = [], explanation = ''Error in scoring'', timestamp = now\<rparr>"
proof -
  from fallback_rules_raises [OF assms] obtain e where "fallback_rules fin nws = Inl e"
    by (cases "fallback_rules fin nws") simp_all
  then show ?thesis by (rule fallback_score_Inl)
qed

text \<open>
  With return on equity \<^verbatim>\<open>None\<close>, debt-to-equity 0.3 and sentiment 0.8, the comparison of
  the return on equity raises inside \<^verbatim>\<open>_fallback_score\<close> and its handler returns score
  500 with Medium Risk: neither the +100 for the debt-to-equity nor the +50 for the
  sentiment is applied. The reference gives 750, 650 or 450 for these two values,
  whichever of its three adjustments is taken for the return on equity.
\<close>

theorem fallback_score_none_counterexample:
  "fallback_score [(''debt_to_equity'', PNum (3 / 10)), (''roe'', PNone)]
       [(''sentiment_score'', PNum (4 / 5))] ''ACME'' ''2025-01-01T00:00:00''
     = Inr \<lparr>ticker = ''ACME'', score = 500, risk_level = ''Medium Risk'', color = ''yellow'',
            contributions = [], explanation = ''Error in scoring'',
            timestamp = ''2025-01-01T00:00:00''\<rparr>
   \<and> spec_fallback_score (3 / 10) (1 / 5) (4 / 5) = 750
   \<and> spec_fallback_score (3 / 10) 0 (4 / 5) = 650
   \<and> spec_fallback_score (3 / 10) (- 1) (4 / 5) = 450"
  by (simp add: fallback_score_def fallback_rules_def dict_get_def Let_def
        spec_fallback_score_def)

text \<open>
  Claim C2, amended. On every financial and sentiment record whose three rule fields
  are numbers (an absent field reads as its neutral default), \<^verbatim>\<open>_fallback_score\<close>
  returns the score of the rule-based reference of the specification: base 500, the
  additive adjustments for debt-to-equity, return on equity and sentiment, clamped to the
  range from 0 to 1000, with the tier of that score and the sentinel as the only
  contribution. At debt-to-equity 0.3, return on equity 0.2 and sentiment 0.8 this gives
  750 and Low Risk; at 3.0, -0.1 and 0.2 it gives 100 and High Risk. On every other
  record, one with a rule field that is \<^verbatim>\<open>None\<close> or a string, it returns the fixed
  result of its handler: score 500, Medium Risk, no contributions.
\<close>

theorem fallback_score_refines_spec:
  "(dict_get financial_data ''debt_to_equity'' (PNum 1) = PNum d
      \<and> dict_get financial_data ''roe'' (PNum 0) = PNum r
      \<and> dict_get news_data ''sentiment_score'' (PNum (1 / 2)) = PNum s
    \<longrightarrow> fallback_score financial_data news_data tkr now =
          Inr \<lparr>ticker = tkr, score = of_int (spec_fallback_score d r s),
                risk_level = spec_tier (of_int (spec_fallback_score d r s)),
                color = snd (risk_band (of_int (spec_fallback_score d r s))),
                contributions = [(''fallback'', 1)],
                explanation = ''Fallback scoring used. Score: ''
                                @ str_int (spec_fallback_score d r s) @ ''/1000'',
                timestamp = now\<rparr>)
   \<and> ((\<forall>d. dict_get financial_data ''debt_to_equity'' (PNum 1) \<noteq> PNum d)
         \<or> (\<forall>r. dict_get financial_data ''roe'' (PNum 0) \<noteq> PNum r)
         \<or> (\<forall>s. dict_get news_data ''sentiment_score'' (PNum (1 / 2)) \<noteq> PNum s)
    \<longrightarrow> fallback_score financial_data news_data tkr now =
          Inr \<lparr>ticker = tkr, score = 500, risk_level = ''Medium Risk'', color = ''yellow'',
                contributions = [], explanation = ''Error in scoring'', timestamp = now\<rparr>)"
  using fallback_score_numeric [of financial_data d r news_data s tkr now]
        fallback_score_non_numeric [of financial_data news_data tkr now]
  by blast

theorem fallback_score_refines_spec_witness:
  "score (projr (fallback_score
      [(''debt_to_equity'', PNum (3 / 10)), (''roe'', PNum (1 / 5))]
      [(''sentiment_score'', PNum (4 / 5))] ''ACME'' ''2025-01-01T00:00:00'')) = 750
   \<and> risk_level (projr (fallback_score
      [(''debt_to_equity'', PNum (3 / 10)), (''roe'', PNum (1 / 5))]
      [(''sentiment_score'', PNum (4 / 5))] ''ACME'' ''2025-01-01T00:00:00'')) = ''Low Risk''
   \<and> score (projr (fallback_score
      [(''debt_to_equity'', PNum 3), (''roe'', PNum (- (1 / 10)))]
      [(''sentiment_score'', PNum (1 / 5))] ''ACME'' ''2025-01-01T00:00:00'')) = 100
   \<and> risk_level (projr (fallback_score
      [(''debt_to_equity'', PNum 3), (''roe'', PNum (- (1 / 10)))]
      [(''sentiment_score'', PNum (1 / 5))] ''ACME'' ''2025-01-01T00:00:00'')) = ''High Risk''
   \<and> score (projr (fallback_score
      [(''debt_to_equity'', PNum (3 / 10)), (''roe'', PStr ''N/A'')]
      [(''sentiment_score'', PNum (4 / 5))] ''ACME'' ''2025-01-01T00:00:00'')) = 500"
proof -
  let ?now = "''2025-01-01T00:00:00''"
  note a = fallback_score_refines_spec
             [of "[(''debt_to_equity'', PNum (3 / 10)), (''roe'', PNum (1 / 5))]" "3 / 10" "1 / 5"
                 "[(''sentiment_score'', PNum (4 / 5))]" "4 / 5" "''ACME''" ?now]
  note b = fallback_score_refines_spec
             [of "[(''debt_to_equity'', PNum 3), (''roe'', PNum (- (1 / 10)))]" 3 "- (1 / 10)"
                 "[(''sentiment_score'', PNum (1 / 5))]" "1 / 5" "''ACME''" ?now]
  note c = fallback_score_refines_spec
             [of "[(''debt_to_equity'', PNum (3 / 10)), (''roe'', PStr ''N/A'')]" 0 0
                 "[(''sentiment_score'', PNum (4 / 5))]" 0 "''ACME''" ?now]
  have one: "fallback_score [(''debt_to_equity'', PNum (3 / 10)), (''roe'', PNum (1 / 5))]
               [(''sentiment_score'', PNum (4 / 5))] ''ACME'' ?now
             = Inr \<lparr>ticker = ''ACME'', score = of_int (spec_fallback_score (3 / 10) (1 / 5) (4 / 5)),
                risk_level = spec_tier (of_int (spec_fallback_score (3 / 10) (1 / 5) (4 / 5))),
                color = snd (risk_band (of_int (spec_fallback_score (3 / 10) (1 / 5) (4 / 5)))),
                contributions = [(''fallback'', 1)],
                explanation = ''Fallback scoring used. Score: ''
                       @ str_int (spec_fallback_score (3 / 10) (1 / 5) (4 / 5)) @ ''/1000'',
                timestamp = ?now\<rparr>"
    by (rule mp [OF a [THEN conjunct1]]) (simp add: dict_get_def)
  have two: "fallback_score [(''debt_to_equity'', PNum 3), (''roe'', PNum (- (1 / 10)))]
               [(''sentiment_score'', PNum (1 / 5))] ''ACME'' ?now
             = Inr \<lparr>ticker = ''ACME'', score = of_int (spec_fallback_score 3 (- (1 / 10)) (1 / 5)),
                risk_level = spec_tier (of_int (spec_fallback_score 3 (- (1 / 10)) (1 / 5))),
                color = snd (risk_band (of_int (spec_fallback_score 3 (- (1 / 10)) (1 / 5)))),
                contributions = [(''fallback'', 1)],
                explanation = ''Fallback scoring used. Score: ''
                       @ str_int (spec_fallback_score 3 (- (1 / 10)) (1 / 5)) @ ''/1000'',
                timestamp = ?now\<rparr>"
    by (rule mp [OF b [THEN conjunct1]]) (simp add: dict_get_def)
  have three: "fallback_score [(''debt_to_equity'', PNum (3 / 10)), (''roe'', PStr ''N/A'')]
               [(''sentiment_score'', PNum (4 / 5))] ''ACME'' ?now
             = Inr \<lparr>ticker = ''ACME'', score = 500, risk_level = ''Medium Risk'',
                color = ''yellow'', contributions = [], explanation = ''Error in scoring'',
                timestamp = ?now\<rparr>"
    by (rule mp [OF c [THEN conjunct2]]) (simp add: dict_get_def)
  have v1: "spec_fallback_score (3 / 10) (1 / 5) (4 / 5) = 750"
    and v2: "spec_fallback_score 3 (- (1 / 10)) (1 / 5) = 100"
    by (simp_all add: spec_fallback_score_def)
  show ?thesis
    unfolding one two three by (simp add: v1 v2 spec_tier_def)
qed

lemma fallback_score_shape:
  "\<exists>fr. fallback_score fin nws tkr now = Inr fr \<and> ticker fr = tkr
     \<and> 0 \<le> score fr \<and> score fr \<le> 1000 \<and> risk_level fr = spec_tier (score fr)
     \<and> (if isl (fallback_rules fin nws)
          then contributions fr = [] \<and> score fr = 500
          else map fst (contributions fr) = [''fallback''])"
proof (cases "fallback_rules fin nws")
  case (Inl e)
  show ?thesis
    unfolding fallback_score_Inl [OF Inl] using Inl by (simp add: spec_tier_def)
next
  case (Inr b)
  from fallback_rules_range [OF Inr] show ?thesis
    unfolding fallback_score_Inr [OF Inr] using Inr by simp
qed

lemma calculate_score_try_untrained:
  "\<not> is_trained self \<Longrightarrow>
     calculate_score_try self tkr fin nws mac now
       = fallback_score fin nws fallback_default_ticker now"
  by (simp add: calculate_score_try_def)

lemma calculate_score_try_trained:
  assumes "is_trained self"
      and "calculate_score_try self tkr fin nws mac now = Inr res"
  shows "\<exists>fs raw. scaler_transform self (extract_features fin nws mac) = Inr fs
           \<and> model_predict self fs = Inr raw
           \<and> ticker res = tkr \<and> score res = round_float self (max 0 (min 1000 raw)) 1
           \<and> risk_level res = spec_tier (max 0 (min 1000 raw))"
proof -
  from assms obtain fs where fs: "scaler_transform self (extract_features fin nws mac) = Inr fs"
    by (cases "scaler_transform self (extract_features fin nws mac)")
       (simp_all add: calculate_score_try_def Let_def)
  from assms fs obtain raw where raw: "model_predict self fs = Inr raw"
    by (cases "model_predict self fs") (simp_all add: calculate_score_try_def Let_def)
  from assms fs raw obtain cs where
    cs: "contributions_loop (round_float self) feature_names 0 fs (feature_importances self) []
           = Inr cs"
    by (cases "contributions_loop (round_float self) feature_names 0 fs
                 (feature_importances self) []")
       (simp_all add: calculate_score_try_def Let_def)
  from assms fs raw cs have
    "res = \<lparr>ticker = tkr, score = round_float self (max 0 (min 1000 raw)) 1,
            risk_level = spec_tier (max 0 (min 1000 raw)),
            color = snd (risk_band (max 0 (min 1000 raw))), contributions = cs,
            explanation = generate_explanation self tkr (max 0 (min 1000 raw)) cs fin nws,
            timestamp = now\<rparr>"
    by (simp add: calculate_score_try_def Let_def spec_tier_band)
  with fs raw show ?thesis by auto
qed

lemma calculate_score_handler:
  "isl (calculate_score_try self tkr fin nws mac now) \<Longrightarrow>
     calculate_score self tkr fin nws mac now = fallback_score fin nws tkr now"
  by (cases "calculate_score_try self tkr fin nws mac now") (simp_all add: calculate_score_def)

lemma calculate_score_pass:
  "calculate_score_try self tkr fin nws mac now = Inr res \<Longrightarrow>
     calculate_score self tkr fin nws mac now = Inr res"
  by (simp add: calculate_score_def)

lemma calculate_score_result_ticker:
  "\<exists>res. calculate_score self tkr financial_data news_data macro_data now = Inr res
     \<and> ticker res = (if is_trained self then tkr else ''UNKNOWN'')"
proof (cases "calculate_score_try self tkr financial_data news_data macro_data now")
  case (Inl e)
  then have "calculate_score self tkr financial_data news_data macro_data now
               = fallback_score financial_data news_data tkr now"
    by (simp add: calculate_score_def)
  moreover have "is_trained self"
  proof (rule ccontr)
    assume "\<not> is_trained self"
    from calculate_score_try_untrained [OF this, of tkr financial_data news_data macro_data now]
         Inl fallback_score_shape [of financial_data news_data fallback_default_ticker now]
    show False by auto
  qed
  ultimately show ?thesis
    using fallback_score_shape [of financial_data news_data tkr now] by auto
next
  case (Inr res)
  note pass = calculate_score_pass [OF Inr]
  show ?thesis
  proof (cases "is_trained self")
    case True
    from calculate_score_try_trained [OF True Inr] pass True show ?thesis by auto
  next
    case False
    with Inr have "fallback_score financial_data news_data fallback_default_ticker now = Inr res"
      by (simp add: calculate_score_try_untrained)
    with fallback_score_shape [of financial_data news_data fallback_default_ticker now]
    have "ticker res = ''UNKNOWN''" by (auto simp: fallback_default_ticker_def)
    with pass False show ?thesis by simp
  qed
qed

text \<open>
  Claim C10. \<^verbatim>\<open>calculate_score\<close> always returns a result; when the model is not
  trained the entity id of the result is the literal UNKNOWN, whatever id was asked for,
  and on every other path (the model path and the fallback taken from the handler) it is
  the id given.
\<close>

theorem calculate_score_ticker:
  "\<exists>res. calculate_score self tkr financial_data news_data macro_data now = Inr res
     \<and> ticker res = (if is_trained self then tkr else ''UNKNOWN'')"
  by (rule calculate_score_result_ticker)

theorem calculate_score_ticker_witness:
  "ticker (projr (calculate_score (example_scorer 800 \<lparr>is_trained := False\<rparr>) ''AAPL''
      [(''roe'', PNum (2 / 10))] [] [] ''2025-01-01T00:00:00'')) = ''UNKNOWN''
   \<and> ticker (projr (calculate_score (example_scorer 800) ''AAPL''
      [(''roe'', PNum (2 / 10))] [] [] ''2025-01-01T00:00:00'')) = ''AAPL''"
  using calculate_score_ticker [of "example_scorer 800 \<lparr>is_trained := False\<rparr>" "''AAPL''"
          "[(''roe'', PNum (2 / 10))]" "[]" "[]" "''2025-01-01T00:00:00''"]
        calculate_score_ticker [of "example_scorer 800" "''AAPL''"
          "[(''roe'', PNum (2 / 10))]" "[]" "[]" "''2025-01-01T00:00:00''"]
  by (auto simp: example_scorer_def)

lemma calculate_score_total:
  "\<exists>res. calculate_score self tkr fin nws mac now = Inr res"
proof (cases "calculate_score_try self tkr fin nws mac now")
  case (Inl e)
  with fallback_score_total [of fin nws tkr now] show ?thesis
    by (simp add: calculate_score_def)
next
  case (Inr res)
  then show ?thesis by (simp add: calculate_score_def)
qed

lemma example_scorer_749:
  "calculate_score_try (example_scorer near_threshold_raw) ''ACME'' [] [] [] now
     = Inr \<lparr>ticker = ''ACME'', score = 750, risk_level = ''Medium Risk'', color = ''yellow'',
            contributions = map (\<lambda>n. (n, 0)) feature_names, explanation = ''ACME'',
            timestamp = now\<rparr>"
  by (simp add: calculate_score_try_def example_scorer_def extract_features_def
        extract_features_try_def dict_get_def Let_def feature_names_def risk_band_def
        py_round_def round_half_even_def near_threshold_raw_def)

text \<open>
  The model path tiers the clamped score and then stores that score rounded to one
  decimal: a prediction of 749.96 is returned as score 750.0 with tier Medium Risk, while
  the thresholds give Low Risk for 750.
\<close>

theorem calculate_score_tier_counterexample:
  "score (projr (calculate_score (example_scorer near_threshold_raw) ''ACME'' [] [] []
                   ''2025-01-01T00:00:00'')) = 750
   \<and> risk_level (projr (calculate_score (example_scorer near_threshold_raw) ''ACME'' [] [] []
                   ''2025-01-01T00:00:00'')) = ''Medium Risk''
   \<and> spec_tier 750 = ''Low Risk''"
  by (simp add: calculate_score_def example_scorer_749 spec_tier_def)

text \<open>
  A scorer that is not trained calls the fallback at once. With return on equity
  \<^verbatim>\<open>None\<close> the fallback's own comparison raises and its handler returns a result with an
  empty contribution map. The same happens on a trained scorer when the return on equity
  is a string: the scaler cannot convert it and raises, the handler of
  \<^verbatim>\<open>calculate_score\<close> calls the fallback, and the fallback's comparison raises too.
\<close>

theorem calculate_score_sentinel_counterexample:
  "contributions (projr (calculate_score (example_scorer 800\<lparr>is_trained := False\<rparr>) ''JPM''
          [(''roe'', PNone)] [] [] ''2025-01-01T00:00:00'')) = []
   \<and> isl (calculate_score_try (example_scorer 800) ''JPM'' [(''roe'', PStr ''N/A'')] [] []
          ''2025-01-01T00:00:00'')
   \<and> contributions (projr (calculate_score (example_scorer 800) ''JPM''
          [(''roe'', PStr ''N/A'')] [] [] ''2025-01-01T00:00:00'')) = []"
  by (simp add: calculate_score_def calculate_score_try_def example_scorer_def extract_features_def
        extract_features_try_def dict_get_def Let_def fallback_score_def fallback_rules_def)

text \<open>
  Claim C3, amended. For every input \<^verbatim>\<open>calculate_score\<close> returns a result. On the model
  path (the scorer is trained and the \<^verbatim>\<open>try\<close> block raises nothing) the tier of the
  result is the threshold function (750 and above Low Risk, 500 and above Medium Risk,
  else High Risk) of the model's prediction clamped to the range from 0 to 1000, and the
  returned score is that clamped prediction rounded to one decimal by the library; it
  lies in the range whenever that rounding maps the range into itself. On the fallback
  path the returned score lies in the range and the tier is the threshold function of
  the returned score.
\<close>

theorem calculate_score_range_tier:
  "\<exists>res. calculate_score self tkr financial_data news_data macro_data now = Inr res
     \<and> (if is_trained self
           \<and> \<not> isl (calculate_score_try self tkr financial_data news_data macro_data now)
        then \<exists>features_scaled raw.
               scaler_transform self (extract_features financial_data news_data macro_data)
                 = Inr features_scaled
             \<and> model_predict self features_scaled = Inr raw
             \<and> risk_level res = spec_tier (max 0 (min 1000 raw))
             \<and> score res = round_float self (max 0 (min 1000 raw)) 1
             \<and> ((\<forall>x. 0 \<le> x \<and> x \<le> 1000
                      \<longrightarrow> 0 \<le> round_float self x 1 \<and> round_float self x 1 \<le> 1000)
                  \<longrightarrow> 0 \<le> score res \<and> score res \<le> 1000)
        else risk_level res = spec_tier (score res) \<and> 0 \<le> score res \<and> score res \<le> 1000)"
proof (cases "calculate_score_try self tkr financial_data news_data macro_data now")
  case (Inl e)
  from fallback_score_shape [of financial_data news_data tkr now] obtain fr where
    fr: "fallback_score financial_data news_data tkr now = Inr fr"
        "0 \<le> score fr" "score fr \<le> 1000" "risk_level fr = spec_tier (score fr)"
    by blast
  from Inl fr(1) have "calculate_score self tkr financial_data news_data macro_data now = Inr fr"
    by (simp add: calculate_score_def)
  with fr Inl show ?thesis by simp
next
  case (Inr res)
  note pass = calculate_score_pass [OF Inr]
  show ?thesis
  proof (cases "is_trained self")
    case True
    from calculate_score_try_trained [OF True Inr] obtain fs raw where
      raw: "scaler_transform self (extract_features financial_data news_data macro_data) = Inr fs"
           "model_predict self fs = Inr raw"
           "score res = round_float self (max 0 (min 1000 raw)) 1"
           "risk_level res = spec_tier (max 0 (min 1000 raw))"
      by blast
    have rng: "(\<forall>x. 0 \<le> x \<and> x \<le> 1000
                      \<longrightarrow> 0 \<le> round_float self x 1 \<and> round_float self x 1 \<le> 1000)
                  \<longrightarrow> 0 \<le> score res \<and> score res \<le> 1000"
      unfolding raw(3) by simp
    have "\<exists>features_scaled raw.
               scaler_transform self (extract_features financial_data news_data macro_data)
                 = Inr features_scaled
             \<and> model_predict self features_scaled = Inr raw
             \<and> risk_level res = spec_tier (max 0 (min 1000 raw))
             \<and> score res = round_float self (max 0 (min 1000 raw)) 1
             \<and> ((\<forall>x. 0 \<le> x \<and> x \<le> 1000
                      \<longrightarrow> 0 \<le> round_float self x 1 \<and> round_float self x 1 \<le> 1000)
                  \<longrightarrow> 0 \<le> score res \<and> score res \<le> 1000)"
      using raw rng by (intro exI [of _ fs] exI [of _ raw]) simp
    with pass True Inr show ?thesis by simp
  next
    case False
    with Inr have "fallback_score financial_data news_data fallback_default_ticker now = Inr res"
      by (simp add: calculate_score_try_untrained)
    with fallback_score_shape [of financial_data news_data fallback_default_ticker now]
    have "0 \<le> score res \<and> score res \<le> 1000 \<and> risk_level res = spec_tier (score res)"
      by auto
    with pass False show ?thesis by simp
  qed
qed

theorem calculate_score_range_tier_witness:
  "\<exists>res. calculate_score (example_scorer near_threshold_raw) ''ACME'' [] [] []
                ''2025-01-01T00:00:00'' = Inr res
     \<and> risk_level res = spec_tier (max 0 (min 1000 near_threshold_raw))
     \<and> score res = py_round (max 0 (min 1000 near_threshold_raw)) 1
     \<and> 0 \<le> score res \<and> score res \<le> 1000"
proof -
  let ?sc = "example_scorer near_threshold_raw"
  have ok: "\<not> isl (calculate_score_try ?sc ''ACME'' [] [] [] ''2025-01-01T00:00:00'')"
    by (simp add: example_scorer_749)
  have trained: "is_trained ?sc"
    by (simp add: example_scorer_def)
  have rnd: "round_float ?sc = py_round" by (simp add: example_scorer_def)
  have keeps: "\<forall>x. 0 \<le> x \<and> x \<le> 1000
                 \<longrightarrow> 0 \<le> round_float ?sc x 1 \<and> round_float ?sc x 1 \<le> 1000"
    unfolding rnd using py_round_1_range by blast
  have pred: "\<And>fs raw. model_predict ?sc fs = Inr raw \<Longrightarrow> raw = near_threshold_raw"
    by (simp add: example_scorer_def)
  from calculate_score_range_tier [of ?sc "''ACME''" "[]" "[]" "[]" "''2025-01-01T00:00:00''"]
       ok trained
  obtain res fs raw where
    r: "calculate_score ?sc ''ACME'' [] [] [] ''2025-01-01T00:00:00'' = Inr res"
       "model_predict ?sc fs = Inr raw"
       "risk_level res = spec_tier (max 0 (min 1000 raw))"
       "score res = round_float ?sc (max 0 (min 1000 raw)) 1"
       "(\<forall>x. 0 \<le> x \<and> x \<le> 1000
            \<longrightarrow> 0 \<le> round_float ?sc x 1 \<and> round_float ?sc x 1 \<le> 1000)
          \<longrightarrow> 0 \<le> score res \<and> score res \<le> 1000"
    by auto
  from pred [OF r(2)] have raw: "raw = near_threshold_raw" .
  from r(5) keeps have "0 \<le> score res \<and> score res \<le> 1000" by blast
  with r(1,3,4) raw rnd show ?thesis by auto
qed

text \<open>
  Claim C6, amended. For every input \<^verbatim>\<open>calculate_score\<close> returns a result and raises
  nothing; whenever the \<^verbatim>\<open>try\<close> block raises, the result is that of the fallback for
  the same ticker. The contribution map of a fallback result has the sentinel key
  \<^verbatim>\<open>fallback\<close> as its only key when the rules complete; when a comparison of the rules
  raises, the result is the fixed one of the handler: score 500, Medium Risk, no
  contributions.
\<close>

theorem calculate_score_never_raises:
  "(\<exists>res. calculate_score self tkr financial_data news_data macro_data now = Inr res
      \<and> (isl (calculate_score_try self tkr financial_data news_data macro_data now)
           \<longrightarrow> Inr res = fallback_score financial_data news_data tkr now))
   \<and> (\<exists>fr. fallback_score financial_data news_data tkr' now' = Inr fr
      \<and> (if isl (fallback_rules financial_data news_data)
          then contributions fr = [] \<and> score fr = 500 \<and> risk_level fr = ''Medium Risk''
          else map fst (contributions fr) = [''fallback'']))"
proof
  from calculate_score_total obtain res where
    res: "calculate_score self tkr financial_data news_data macro_data now = Inr res"
    by blast
  with calculate_score_handler [of self tkr financial_data news_data macro_data now]
  show "\<exists>res. calculate_score self tkr financial_data news_data macro_data now = Inr res
      \<and> (isl (calculate_score_try self tkr financial_data news_data macro_data now)
           \<longrightarrow> Inr res = fallback_score financial_data news_data tkr now)"
    by auto
next
  from fallback_score_shape [of financial_data news_data tkr' now']
  show "\<exists>fr. fallback_score financial_data news_data tkr' now' = Inr fr
      \<and> (if isl (fallback_rules financial_data news_data)
          then contributions fr = [] \<and> score fr = 500 \<and> risk_level fr = ''Medium Risk''
          else map fst (contributions fr) = [''fallback''])"
    by (auto simp: spec_tier_def split: if_splits)
qed

theorem calculate_score_never_raises_witness:
  "isl (calculate_score_try (example_scorer 800) ''JPM'' [(''volatility'', PStr ''N/A'')] [] []
          ''2025-01-01T00:00:00'')
   \<and> (\<exists>res. calculate_score (example_scorer 800) ''JPM'' [(''volatility'', PStr ''N/A'')] [] []
          ''2025-01-01T00:00:00'' = Inr res
        \<and> Inr res = fallback_score [(''volatility'', PStr ''N/A'')] [] ''JPM''
                       ''2025-01-01T00:00:00''
        \<and> map fst (contributions res) = [''fallback''])"
proof -
  have raised: "isl (calculate_score_try (example_scorer 800) ''JPM''
                  [(''volatility'', PStr ''N/A'')] [] [] ''2025-01-01T00:00:00'')"
    by (simp add: calculate_score_try_def example_scorer_def extract_features_def
          extract_features_try_def dict_get_def Let_def)
  have rules: "\<not> isl (fallback_rules [(''volatility'', PStr ''N/A'')] [])"
    by (simp add: fallback_rules_def dict_get_def Let_def)
  from calculate_score_never_raises [of "example_scorer 800" "''JPM''"
         "[(''volatility'', PStr ''N/A'')]" "[]" "[]" "''2025-01-01T00:00:00''" "''JPM''"
         "''2025-01-01T00:00:00''"] raised rules
  show ?thesis by auto
qed

section \<open>Properties of the cache and the history\<close>

lemma json_key_inject [simp]: "(json_key a = json_key b) = (a = b)"
  by (simp add: json_key_def)

lemma hist_key_inject [simp]: "(hist_key a = hist_key b) = (a = b)"
  by (simp add: hist_key_def)

lemma hist_key_not_latest [simp]: "hist_key a \<noteq> ''latest_scores''"
  by (simp add: hist_key_def)

lemma last_n_length [simp]: "length (last_n n xs) = min n (length xs)"
  by (simp add: last_n_def)

lemma last_n_short: "length xs \<le> n \<Longrightarrow> last_n n xs = xs"
  by (simp add: last_n_def)

lemma last_n_full: "length xs = n \<Longrightarrow> 0 < n \<Longrightarrow> last_n n (xs @ [x]) = tl xs @ [x]"
  by (cases xs) (simp_all add: last_n_def)

lemma truncate_eq:
  "(if length xs > 100 then last_n 100 xs else xs) = last_n 100 xs"
  by (simp add: last_n_short)

lemma store_step:
  "store_historical_scores w ((tkr, sd) # rest) r =
     (case history_or_empty (get_json w r (hist_key tkr)) of
        Inl e \<Rightarrow> r
      | Inr h \<Rightarrow> store_historical_scores w rest
          (fst (set_json w r (hist_key tkr) (JHistory (last_n 100 (h @ [new_point w sd]))) 86400)))"
  by (simp add: Let_def truncate_eq split: sum.split)

lemma store_other:
  "k \<notin> (\<lambda>t. json_key (hist_key t)) ` fst ` set scs \<Longrightarrow>
     store_historical_scores w scs r k = r k"
proof (induction scs arbitrary: r)
  case Nil
  then show ?case by simp
next
  case (Cons p scs)
  obtain t sd where p: "p = (t, sd)" by (cases p)
  from Cons.prems p have k: "k \<noteq> json_key (hist_key t)"
    and rest: "k \<notin> (\<lambda>t. json_key (hist_key t)) ` fst ` set scs" by auto
  show ?case
    unfolding p store_step
    using k Cons.IH [OF rest]
    by (simp add: set_json_def split: sum.split)
qed

lemma store_bounded:
  assumes "\<forall>k h. r k = Some (JHistory h) \<longrightarrow> length h \<le> 100"
  shows "\<forall>k h. store_historical_scores w scs r k = Some (JHistory h) \<longrightarrow> length h \<le> 100"
  using assms
proof (induction scs arbitrary: r)
  case Nil
  then show ?case by simp
next
  case (Cons p scs)
  obtain t sd where p: "p = (t, sd)" by (cases p)
  show ?case
  proof (cases "history_or_empty (get_json w r (hist_key t))")
    case (Inl e)
    with Cons.prems show ?thesis unfolding p store_step by simp
  next
    case (Inr h0)
    let ?r = "fst (set_json w r (hist_key t) (JHistory (last_n 100 (h0 @ [new_point w sd]))) 86400)"
    have "\<forall>k h. ?r k = Some (JHistory h) \<longrightarrow> length h \<le> 100"
      using Cons.prems by (auto simp: set_json_def)
    from Cons.IH [OF this] Inr show ?thesis unfolding p store_step by simp
  qed
qed

lemma store_appends:
  assumes "distinct (map fst scs)" and "(tkr, sd) \<in> set scs"
      and "\<forall>t \<in> fst ` set scs. \<forall>b. r (json_key (hist_key t)) \<noteq> Some (JBatch b)"
      and "\<not> get_fails w (json_key (hist_key tkr))"
      and "\<not> setex_fails w (json_key (hist_key tkr))"
  shows "store_historical_scores w scs r (json_key (hist_key tkr)) =
           Some (JHistory (last_n 100
             ((case r (json_key (hist_key tkr)) of Some (JHistory h) \<Rightarrow> h | _ \<Rightarrow> [])
               @ [new_point w sd])))"
  using assms(1-3)
proof (induction scs arbitrary: r)
  case Nil
  then show ?case by simp
next
  case (Cons p scs)
  obtain t sd' where p: "p = (t, sd')" by (cases p)
  from Cons.prems(1) p have notin: "t \<notin> fst ` set scs" and dist: "distinct (map fst scs)"
    by auto
  from Cons.prems(3) p have nobatch: "\<forall>b. r (json_key (hist_key t)) \<noteq> Some (JBatch b)"
    by auto
  then obtain h0 where h0: "history_or_empty (get_json w r (hist_key t)) = Inr h0"
    by (cases "get_json w r (hist_key t)" rule: history_or_empty.cases)
       (auto simp: get_json_def split: if_splits)
  let ?r = "fst (set_json w r (hist_key t) (JHistory (last_n 100 (h0 @ [new_point w sd']))) 86400)"
  have step: "store_historical_scores w (p # scs) r = store_historical_scores w scs ?r"
    unfolding p store_step h0 by simp
  show ?case
  proof (cases "t = tkr")
    case True
    have "(tkr, sd) \<notin> set scs"
    proof
      assume "(tkr, sd) \<in> set scs"
      then have "fst (tkr, sd) \<in> fst ` set scs" by (rule imageI)
      with notin True show False by simp
    qed
    with Cons.prems(2) p have sd: "sd' = sd" by auto
    from True notin have "json_key (hist_key tkr) \<notin> (\<lambda>t. json_key (hist_key t)) ` fst ` set scs"
      by force
    from store_other [OF this] have "store_historical_scores w scs ?r (json_key (hist_key tkr))
        = ?r (json_key (hist_key tkr))" .
    moreover have "h0 = (case r (json_key (hist_key tkr)) of Some (JHistory h) \<Rightarrow> h | _ \<Rightarrow> [])"
      using h0 True assms(4) nobatch
      by (cases "r (json_key (hist_key tkr))" rule: history_or_empty.cases)
         (auto simp: get_json_def)
    ultimately show ?thesis
      unfolding step using True sd assms(5) by (simp add: set_json_def)
  next
    case False
    with Cons.prems(2) p have mem: "(tkr, sd) \<in> set scs" by auto
    have same: "\<And>k. k \<noteq> json_key (hist_key t) \<Longrightarrow> ?r k = r k"
      by (simp add: set_json_def)
    have "\<forall>t' \<in> fst ` set scs. \<forall>b. ?r (json_key (hist_key t')) \<noteq> Some (JBatch b)"
    proof (intro ballI allI)
      fix t' b assume t': "t' \<in> fst ` set scs"
      with notin have "t' \<noteq> t" by auto
      then have "?r (json_key (hist_key t')) = r (json_key (hist_key t'))"
        by (intro same) simp
      with Cons.prems(3) t' show "?r (json_key (hist_key t')) \<noteq> Some (JBatch b)" by auto
    qed
    from Cons.IH [OF dist mem this] False show ?thesis
      unfolding step by (simp add: same)
  qed
qed

lemma get_ticker_history_length: "length (get_ticker_history w r tkr) \<le> 50"
  by (simp add: get_ticker_history_def split: sum.split)

lemma get_ticker_history_stored:
  "\<not> get_fails w (json_key (hist_key tkr)) \<Longrightarrow> r (json_key (hist_key tkr)) = Some (JHistory h)
     \<Longrightarrow> get_ticker_history w r tkr = last_n 50 h"
  by (simp add: get_ticker_history_def get_json_def)

lemma get_ticker_history_none:
  "r (json_key (hist_key tkr)) = None \<Longrightarrow> get_ticker_history w r tkr = []"
  by (simp add: get_ticker_history_def get_json_def last_n_def)

lemma length_entries [simp]: "length (entries i j) = j - i"
  by (simp add: entries_def)

lemma tl_entries: "i < j \<Longrightarrow> tl (entries i j) = entries (Suc i) j"
  by (simp add: entries_def upt_conv_Cons)

lemma drop_entries: "drop k (entries i j) = entries (i + k) j"
  by (simp add: entries_def drop_map)


text \<open>
  Claim C4. \<^verbatim>\<open>_store_historical_scores\<close> keeps every stored history at no more than 100
  points. An append that reads and writes its key stores the last 100 points of the old
  list followed by the new point, so at most 100, whatever the old list was; on a full
  list of 100 points that is the old list without its first point, then the new one.
  \<^verbatim>\<open>get_ticker_history\<close> returns at most 50 points: the last 50 of the stored list, and
  the empty list for an entity with nothing stored.
\<close>

theorem history_bound:
  "((\<forall>k h. r k = Some (JHistory h) \<longrightarrow> length h \<le> 100) \<longrightarrow>
      (\<forall>k h. store_historical_scores w scs r k = Some (JHistory h) \<longrightarrow> length h \<le> 100))
   \<and> (distinct (map fst scs) \<and> (tkr, sd) \<in> set scs
        \<and> (\<forall>t \<in> fst ` set scs. \<forall>b. r (json_key (hist_key t)) \<noteq> Some (JBatch b))
        \<and> \<not> get_fails w (json_key (hist_key tkr)) \<and> \<not> setex_fails w (json_key (hist_key tkr))
      \<longrightarrow> (let old = (case r (json_key (hist_key tkr)) of Some (JHistory h) \<Rightarrow> h | _ \<Rightarrow> []);
                kept = last_n 100 (old @ [new_point w sd])
            in store_historical_scores w scs r (json_key (hist_key tkr)) = Some (JHistory kept)
               \<and> length kept \<le> 100
               \<and> (length old = 100 \<longrightarrow> kept = tl old @ [new_point w sd])))
   \<and> length (get_ticker_history w' r' tkr') \<le> 50
   \<and> (\<not> get_fails w' (json_key (hist_key tkr')) \<and> r' (json_key (hist_key tkr')) = Some (JHistory h')
        \<longrightarrow> get_ticker_history w' r' tkr' = last_n 50 h')
   \<and> (r' (json_key (hist_key tkr')) = None \<longrightarrow> get_ticker_history w' r' tkr' = [])"
proof (intro conjI impI)
  assume "\<forall>k h. r k = Some (JHistory h) \<longrightarrow> length h \<le> 100"
  then show "\<forall>k h. store_historical_scores w scs r k = Some (JHistory h) \<longrightarrow> length h \<le> 100"
    by (rule store_bounded)
next
  assume a: "distinct (map fst scs) \<and> (tkr, sd) \<in> set scs
        \<and> (\<forall>t \<in> fst ` set scs. \<forall>b. r (json_key (hist_key t)) \<noteq> Some (JBatch b))
        \<and> \<not> get_fails w (json_key (hist_key tkr)) \<and> \<not> setex_fails w (json_key (hist_key tkr))"
  then have "store_historical_scores w scs r (json_key (hist_key tkr)) =
           Some (JHistory (last_n 100
             ((case r (json_key (hist_key tkr)) of Some (JHistory h) \<Rightarrow> h | _ \<Rightarrow> [])
               @ [new_point w sd])))"
    by (intro store_appends) simp_all
  then show "let old = (case r (json_key (hist_key tkr)) of Some (JHistory h) \<Rightarrow> h | _ \<Rightarrow> []);
                kept = last_n 100 (old @ [new_point w sd])
            in store_historical_scores w scs r (json_key (hist_key tkr)) = Some (JHistory kept)
               \<and> length kept \<le> 100
               \<and> (length old = 100 \<longrightarrow> kept = tl old @ [new_point w sd])"
    by (simp add: Let_def last_n_full)
next
  show "length (get_ticker_history w' r' tkr') \<le> 50" by (rule get_ticker_history_length)
next
  assume "\<not> get_fails w' (json_key (hist_key tkr')) \<and> r' (json_key (hist_key tkr')) = Some (JHistory h')"
  then show "get_ticker_history w' r' tkr' = last_n 50 h'"
    by (simp add: get_ticker_history_stored)
next
  assume "r' (json_key (hist_key tkr')) = None"
  then show "get_ticker_history w' r' tkr' = []" by (rule get_ticker_history_none)
qed

theorem history_bound_witness:
  "store_historical_scores (example_world (IngestReturns None)) [(''AAPL'', example_result)]
       full_history (json_key (hist_key ''AAPL''))
     = Some (JHistory (entries 2 101
                         @ [new_point (example_world (IngestReturns None)) example_result]))
   \<and> get_ticker_history (example_world (IngestReturns None)) full_history ''AAPL''
       = entries 51 101
   \<and> get_ticker_history (example_world (IngestReturns None)) full_history ''XOM'' = []"
proof -
  let ?w = "example_world (IngestReturns None)"
  have stored: "full_history (json_key (hist_key ''AAPL'')) = Some (JHistory (entries 1 101))"
    and absent: "full_history (json_key (hist_key ''XOM'')) = None"
    by (simp_all add: full_history_def)
  have up: "\<not> get_fails ?w (json_key (hist_key ''AAPL''))"
           "\<not> setex_fails ?w (json_key (hist_key ''AAPL''))"
    by (simp_all add: example_world_def)
  have tl2: "tl (entries 1 101) = entries 2 101"
    by (rule tl_entries [of 1 101, unfolded Suc_1]) simp
  note a = history_bound [of full_history ?w "[(''AAPL'', example_result)]" "''AAPL''"
             example_result ?w full_history "''AAPL''" "entries 1 101"]
  note x = history_bound [of full_history ?w "[(''AAPL'', example_result)]" "''AAPL''"
             example_result ?w full_history "''XOM''" "[]"]
  have hyp: "distinct (map fst [(''AAPL'', example_result)])
        \<and> (''AAPL'', example_result) \<in> set [(''AAPL'', example_result)]
        \<and> (\<forall>t \<in> fst ` set [(''AAPL'', example_result)].
              \<forall>b. full_history (json_key (hist_key t)) \<noteq> Some (JBatch b))
        \<and> \<not> get_fails ?w (json_key (hist_key ''AAPL''))
        \<and> \<not> setex_fails ?w (json_key (hist_key ''AAPL''))"
    using up by (simp add: stored)
  from mp [OF a [THEN conjunct2, THEN conjunct1] hyp]
  have "store_historical_scores ?w [(''AAPL'', example_result)] full_history
          (json_key (hist_key ''AAPL''))
        = Some (JHistory (tl (entries 1 101) @ [new_point ?w example_result]))"
    unfolding stored by (simp add: Let_def)
  then have one: "store_historical_scores ?w [(''AAPL'', example_result)] full_history
          (json_key (hist_key ''AAPL''))
        = Some (JHistory (entries 2 101 @ [new_point ?w example_result]))"
    by (simp only: tl2)
  from a [THEN conjunct2, THEN conjunct2, THEN conjunct2, THEN conjunct1] up(1) stored
  have "get_ticker_history ?w full_history ''AAPL'' = last_n 50 (entries 1 101)" by blast
  then have two: "get_ticker_history ?w full_history ''AAPL'' = entries 51 101"
    by (simp add: last_n_def drop_entries)
  from x [THEN conjunct2, THEN conjunct2, THEN conjunct2, THEN conjunct2] absent
  have three: "get_ticker_history ?w full_history ''XOM'' = []" by blast
  from one two three show ?thesis by blast
qed

section \<open>Properties of the orchestrator\<close>

lemma latest_not_hist_key [simp]: "''latest_scores'' \<noteq> hist_key t"
  by (simp add: hist_key_def)

lemma persist_latest:
  assumes "\<not> setex_fails w (json_key ''latest_scores'')"
  shows "store_historical_scores w scs (fst (set_json w r ''latest_scores'' v ttl))
           (json_key ''latest_scores'') = Some v"
proof -
  have "json_key ''latest_scores'' \<notin> (\<lambda>t. json_key (hist_key t)) ` fst ` set scs"
    by auto
  from store_other [OF this] assms show ?thesis by (simp add: set_json_def)
qed

lemma refresh_try_data:
  assumes "ingest w = IngestReturns (Some data)"
  shows "refresh_try w self s =
     Inr (RValue (JBatch (batch_of w self data)),
          s\<lparr>cache := store_historical_scores w (scores (batch_of w self data))
                       (fst (set_json w (cache s) ''latest_scores''
                               (JBatch (batch_of w self data)) 3600)),
            last_update := Some (update_clock w),
            score_calls := score_calls s
               + length (scoring_tasks (map fst (financial data)) (financial data) (news data))\<rparr>)"
  by (simp add: refresh_try_def assms Let_def batch_of_def gathered_results_def)

lemma refresh_run_flag: "\<not> processing (snd (refresh_run w self s))"
  by (simp add: refresh_run_def split: sum.split prod.split)

lemma refresh_run_empty:
  assumes "ingest w = IngestReturns None \<or> ingest w = IngestRaises e"
  shows "refresh_run w self s = (REmpty, s\<lparr>processing := False\<rparr>)"
  using assms by (auto simp: refresh_run_def refresh_try_def)

lemma refresh_run_data:
  assumes "ingest w = IngestReturns (Some data)"
  shows "fst (refresh_run w self s) = RValue (JBatch (batch_of w self data))"
    and "cache (snd (refresh_run w self s)) =
           store_historical_scores w (scores (batch_of w self data))
             (fst (set_json w (cache s) ''latest_scores'' (JBatch (batch_of w self data)) 3600))"
    and "ingest_calls (snd (refresh_run w self s)) = ingest_calls s"
  by (simp_all add: refresh_run_def refresh_try_data [OF assms])

lemma process_idle:
  "\<not> processing s \<Longrightarrow> process_all_scores w self s = refresh_run w self (refresh_begin s)"
  by (simp add: process_all_scores_def)

lemma process_busy:
  "processing s \<Longrightarrow> process_all_scores w self s = (refresh_guard w s, s)"
  by (simp add: process_all_scores_def)

lemma process_flag: "\<not> processing s \<Longrightarrow> \<not> processing (snd (process_all_scores w self s))"
  by (simp add: process_idle refresh_run_flag)

lemma scoring_tasks_mem:
  "(t, fd, nd) \<in> set (scoring_tasks ks fin nws) \<Longrightarrow>
     t \<in> set ks \<and> fd = dict_of fin t \<and> fd \<noteq> [] \<and> nd = dict_of nws t"
  by (induction ks) (auto simp: Let_def split: if_splits)

lemma scoring_tasks_none:
  "\<forall>t. dict_of fin t = [] \<Longrightarrow> scoring_tasks ks fin nws = []"
  by (induction ks) (simp_all add: Let_def)

lemma update_mem:
  "(k, v) \<in> set (AList.update k' v' al) \<Longrightarrow> (k, v) = (k', v') \<or> (k, v) \<in> set al"
  by (induction al) (auto split: if_splits)

lemma collect_mem:
  "(k, res) \<in> set (collect_scores rs acc) \<Longrightarrow>
     (k, res) \<in> set acc \<or> (Dict res \<in> set rs \<and> k = ticker res)"
proof (induction rs acc rule: collect_scores.induct)
  case (2 result rest acc)
  from "2.prems" have "(k, res) \<in> set (collect_scores rest (AList.update (ticker result) result acc))"
    by simp
  from "2.IH" [OF this] show ?case by (auto dest: update_mem)
qed auto

lemma collect_distinct:
  "distinct (map fst acc) \<Longrightarrow> distinct (map fst (collect_scores rs acc))"
  by (induction rs acc rule: collect_scores.induct) (simp_all add: distinct_update)

lemma gathered_mem:
  assumes "Dict res \<in> set (gathered_results w self data)"
  shows "\<exists>t. t \<in> fst ` set (financial data) \<and> dict_of (financial data) t \<noteq> []
           \<and> run_in_executor w t = Runs
           \<and> calculate_score self t (dict_of (financial data) t) (dict_of (news data) t)
                (macro data) (score_clock w t) = Inr res"
proof -
  from assms obtain t fd nd where
    task: "(t, fd, nd) \<in> set (scoring_tasks (map fst (financial data)) (financial data) (news data))"
    and res: "calculate_score_async w self t fd nd (macro data) = Dict res"
    by (auto simp: gathered_results_def)
  from scoring_tasks_mem [OF task] have t: "t \<in> fst ` set (financial data)"
    and fd: "fd = dict_of (financial data) t" "fd \<noteq> []" and nd: "nd = dict_of (news data) t"
    by auto
  from res have "run_in_executor w t = Runs
     \<and> calculate_score self t fd nd (macro data) (score_clock w t) = Inr res"
    by (auto simp: calculate_score_async_def split: executor_outcome.splits sum.splits)
  with t fd nd show ?thesis by auto
qed

lemma unknown_not_tracked: "''UNKNOWN'' \<notin> set tickers"
  by (simp add: tickers_def)

lemma batch_keys:
  assumes "(k, res) \<in> set (scores (batch_of w self data))"
  shows "ticker res = k \<and> (\<exists>t. t \<in> fst ` set (financial data) \<and> dict_of (financial data) t \<noteq> []
           \<and> run_in_executor w t = Runs
           \<and> calculate_score self t (dict_of (financial data) t) (dict_of (news data) t)
                (macro data) (score_clock w t) = Inr res
           \<and> k = (if is_trained self then t else ''UNKNOWN''))"
proof -
  from assms have "(k, res) \<in> set (collect_scores (gathered_results w self data) [])"
    by (simp add: batch_of_def)
  from collect_mem [OF this] have d: "Dict res \<in> set (gathered_results w self data)"
    and k: "k = ticker res" by auto
  from gathered_mem [OF d] obtain t where
    t: "t \<in> fst ` set (financial data)" "dict_of (financial data) t \<noteq> []"
       "run_in_executor w t = Runs"
       "calculate_score self t (dict_of (financial data) t) (dict_of (news data) t)
                (macro data) (score_clock w t) = Inr res"
    by blast
  from calculate_score_result_ticker [of self t "dict_of (financial data) t"
         "dict_of (news data) t" "macro data" "score_clock w t"] t(4)
  have "ticker res = (if is_trained self then t else ''UNKNOWN'')" by auto
  with k t show ?thesis by auto
qed

lemma batch_count:
  "ticker_count (batch_of w self data) = length (scores (batch_of w self data))
   \<and> distinct (map fst (scores (batch_of w self data)))
   \<and> ticker_count (batch_of w self data) = card (fst ` set (scores (batch_of w self data)))"
proof -
  have d: "distinct (map fst (scores (batch_of w self data)))"
    by (simp add: batch_of_def collect_distinct)
  from distinct_card [OF d] show ?thesis
    using d by (simp add: batch_of_def)
qed

lemma refresh_run_ingest_calls:
  "ingest_calls (snd (refresh_run w self s)) = ingest_calls s"
proof (cases "ingest w")
  case (IngestRaises e)
  then show ?thesis by (simp add: refresh_run_empty)
next
  case (IngestReturns d)
  show ?thesis
  proof (cases d)
    case None
    with IngestReturns show ?thesis by (simp add: refresh_run_empty)
  next
    case (Some data)
    with IngestReturns show ?thesis by (simp add: refresh_run_data)
  qed
qed

lemma process_ingest_calls:
  "ingest_calls (snd (process_all_scores w self s))
     = (if processing s then ingest_calls s else ingest_calls s + 1)"
  by (simp add: process_idle process_busy refresh_run_ingest_calls refresh_begin_def)

lemma calculate_score_async_setex:
  "calculate_score_async (w\<lparr>setex_fails := f\<rparr>) self t fd nd m
     = calculate_score_async w self t fd nd m"
  by (simp add: calculate_score_async_def split: executor_outcome.split)

lemma batch_of_setex:
  "batch_of (w\<lparr>setex_fails := f\<rparr>) self data = batch_of w self data"
  by (simp add: batch_of_def gathered_results_def calculate_score_async_setex)

lemma run_invariant:
  assumes "run self c evs c'" and "processing (fst c) \<longleftrightarrow> snd c = 1" and "snd c \<le> 1"
  shows "(processing (fst c') \<longleftrightarrow> snd c' = 1) \<and> snd c' \<le> 1"
  using assms
proof (induction rule: run.induct)
  case (run_nil c)
  then show ?case by simp
next
  case (run_guarded c evs s n w)
  then show ?case by simp
next
  case (run_begin c evs s n w)
  then show ?case by (auto simp: refresh_begin_def)
next
  case (run_resume c evs s n w)
  then show ?case by (auto simp: refresh_run_flag)
qed

lemma refresh_guard_cases:
  "(get_json w (cache s) ''latest_scores'' = Some (JBatch b) \<longrightarrow> refresh_guard w s = RValue (JBatch b))
   \<and> (get_json w (cache s) ''latest_scores'' = None \<longrightarrow> refresh_guard w s = REmpty)"
  by (simp add: refresh_guard_def)

text \<open>
  Claim C1. In every interleaving of calls that starts with no refresh in progress, the
  flag is set exactly while one refresh is suspended, and never more than one is. A call
  made while the flag is set returns through the guard: it returns the batch stored under
  the latest-scores key (the empty dictionary if the read yields nothing) and leaves the
  whole state, with the counters of ingestion and scoring, as it was. Once every refresh
  has run to its end the flag is false again; each refresh clears it on all of its exits.
\<close>

theorem single_flight:
  assumes "run self (s0, 0) evs (s, n)" and "\<not> processing s0"
  shows "(processing s \<longleftrightarrow> n = 1) \<and> n \<le> 1 \<and> (n = 0 \<longrightarrow> \<not> processing s)
     \<and> (processing s \<longrightarrow> process_all_scores w self s = (refresh_guard w s, s))
     \<and> (get_json w (cache s) ''latest_scores'' = Some (JBatch b)
          \<longrightarrow> refresh_guard w s = RValue (JBatch b))
     \<and> (get_json w (cache s) ''latest_scores'' = None \<longrightarrow> refresh_guard w s = REmpty)"
proof -
  from run_invariant [OF assms(1)] assms(2)
  have inv: "(processing s \<longleftrightarrow> n = 1) \<and> n \<le> 1" by simp
  then have "n = 0 \<longrightarrow> \<not> processing s" by simp
  with inv refresh_guard_cases [of w s b] show ?thesis by (simp add: process_busy)
qed

theorem single_flight_witness:
  "run (example_scorer 800) (initial, 0)
     [Invoke (example_world (IngestReturns None)), Invoke (example_world (IngestReturns None)),
      Resume (example_world (IngestReturns None))]
     (snd (refresh_run (example_world (IngestReturns None)) (example_scorer 800)
             (refresh_begin initial)), 0)
   \<and> \<not> processing (snd (refresh_run (example_world (IngestReturns None)) (example_scorer 800)
             (refresh_begin initial)))
   \<and> process_all_scores (example_world (IngestReturns None)) (example_scorer 800)
       (refresh_begin initial) = (REmpty, refresh_begin initial)"
proof -
  let ?w = "example_world (IngestReturns None)"
  let ?sc = "example_scorer 800"
  have idle: "\<not> processing initial" by (simp add: initial_def)
  have busy: "processing (refresh_begin initial)" by (simp add: refresh_begin_def)
  have r1: "run ?sc (initial, 0) [Invoke ?w] (refresh_begin initial, Suc 0)"
    using run_begin [OF run_nil idle, of ?sc 0 ?w] by simp
  have r2: "run ?sc (initial, 0) [Invoke ?w, Invoke ?w] (refresh_begin initial, Suc 0)"
    using run_guarded [OF r1 busy, of ?w] by simp
  have r3: "run ?sc (initial, 0) [Invoke ?w, Invoke ?w, Resume ?w]
              (snd (refresh_run ?w ?sc (refresh_begin initial)), 0)"
    using run_resume [OF r2, of ?w] by simp
  have none: "get_json ?w (cache (refresh_begin initial)) ''latest_scores'' = None"
    by (simp add: get_json_def refresh_begin_def initial_def example_world_def)
  from single_flight [OF r2 idle, of ?w] busy none
  have "process_all_scores ?w ?sc (refresh_begin initial) = (REmpty, refresh_begin initial)"
    by simp
  moreover from single_flight [OF r3 idle]
  have "\<not> processing (snd (refresh_run ?w ?sc (refresh_begin initial)))" by simp
  ultimately show ?thesis using r3 by simp
qed

text \<open>
  Claim C5. A refresh that builds a batch returns one whose entity count is the number of
  keys of its score mapping; a tracked entity with an empty financial record is not a
  key; and every stored value is the result that \<^verbatim>\<open>calculate_score\<close> returned for a
  task that the executor ran on a non-empty record, stored under its own ticker field:
  a task that produced the empty dictionary or an exception leaves nothing behind.
\<close>

theorem batch_membership:
  assumes "\<not> processing s" and "ingest w = IngestReturns (Some data)"
  shows "\<exists>b. fst (process_all_scores w self s) = RValue (JBatch b)
     \<and> ticker_count b = length (scores b) \<and> distinct (map fst (scores b))
     \<and> ticker_count b = card (fst ` set (scores b))
     \<and> (\<forall>t \<in> set tickers. dict_of (financial data) t = [] \<longrightarrow> t \<notin> fst ` set (scores b))
     \<and> (\<forall>(k, res) \<in> set (scores b). ticker res = k
          \<and> (\<exists>t. t \<in> fst ` set (financial data) \<and> dict_of (financial data) t \<noteq> []
               \<and> run_in_executor w t = Runs
               \<and> calculate_score self t (dict_of (financial data) t) (dict_of (news data) t)
                    (macro data) (score_clock w t) = Inr res))"
proof -
  let ?b = "batch_of w self data"
  have res: "fst (process_all_scores w self s) = RValue (JBatch ?b)"
    by (simp add: process_idle [OF assms(1)] refresh_run_data(1) [OF assms(2)])
  have absent: "\<forall>t \<in> set tickers. dict_of (financial data) t = [] \<longrightarrow> t \<notin> fst ` set (scores ?b)"
  proof (intro ballI impI notI)
    fix t assume t: "t \<in> set tickers" and empty: "dict_of (financial data) t = []"
      and "t \<in> fst ` set (scores ?b)"
    then obtain r where "(t, r) \<in> set (scores ?b)" by force
    from batch_keys [OF this] obtain t' where
      t': "dict_of (financial data) t' \<noteq> []" "t = (if is_trained self then t' else ''UNKNOWN'')"
      by blast
    show False
    proof (cases "is_trained self")
      case True
      with t' empty show False by simp
    next
      case False
      with t' t unknown_not_tracked show False by simp
    qed
  qed
  have each: "\<forall>(k, res) \<in> set (scores ?b). ticker res = k
          \<and> (\<exists>t. t \<in> fst ` set (financial data) \<and> dict_of (financial data) t \<noteq> []
               \<and> run_in_executor w t = Runs
               \<and> calculate_score self t (dict_of (financial data) t) (dict_of (news data) t)
                    (macro data) (score_clock w t) = Inr res)"
  proof (intro ballI, clarify)
    fix k r assume "(k, r) \<in> set (scores ?b)"
    from batch_keys [OF this]
    show "ticker r = k
          \<and> (\<exists>t. t \<in> fst ` set (financial data) \<and> dict_of (financial data) t \<noteq> []
               \<and> run_in_executor w t = Runs
               \<and> calculate_score self t (dict_of (financial data) t) (dict_of (news data) t)
                    (macro data) (score_clock w t) = Inr r)"
      by blast
  qed
  from res batch_count [of w self data] absent each show ?thesis by blast
qed

text \<open>
  Claim C7, amended. A refresh started with the flag clear never raises and leaves the
  flag clear. When ingestion returns nothing or an exception reaches the handler, it
  returns the empty dictionary and changes nothing else. When ingestion returns a data
  set in which every financial record is empty, it returns a processed batch with an
  empty score mapping, entity count 0 and the processing timestamp.
\<close>

theorem refresh_failure_returns:
  assumes "\<not> processing s"
  shows "((ingest w = IngestReturns None \<or> ingest w = IngestRaises e) \<longrightarrow>
            process_all_scores w self s = (REmpty, s\<lparr>ingest_calls := ingest_calls s + 1\<rparr>))
     \<and> (ingest w = IngestReturns (Some data) \<and> (\<forall>t. dict_of (financial data) t = []) \<longrightarrow>
            fst (process_all_scores w self s) =
              RValue (JBatch \<lparr>scores = [], data_timestamp = Some (ingest_timestamp data),
                              processing_timestamp = processing_clock w, ticker_count = 0\<rparr>))
     \<and> \<not> processing (snd (process_all_scores w self s))"
proof (intro conjI impI)
  assume a: "ingest w = IngestReturns None \<or> ingest w = IngestRaises e"
  have "(refresh_begin s)\<lparr>processing := False\<rparr> = s\<lparr>ingest_calls := ingest_calls s + 1\<rparr>"
    using assms by (simp add: refresh_begin_def)
  with refresh_run_empty [OF a, of self "refresh_begin s"]
  show "process_all_scores w self s = (REmpty, s\<lparr>ingest_calls := ingest_calls s + 1\<rparr>)"
    by (simp add: process_idle [OF assms])
next
  assume a: "ingest w = IngestReturns (Some data) \<and> (\<forall>t. dict_of (financial data) t = [])"
  then have "gathered_results w self data = []"
    by (simp add: gathered_results_def scoring_tasks_none)
  then have "batch_of w self data =
      \<lparr>scores = [], data_timestamp = Some (ingest_timestamp data),
        processing_timestamp = processing_clock w, ticker_count = 0\<rparr>"
    by (simp add: batch_of_def)
  with a show "fst (process_all_scores w self s) =
              RValue (JBatch \<lparr>scores = [], data_timestamp = Some (ingest_timestamp data),
                              processing_timestamp = processing_clock w, ticker_count = 0\<rparr>)"
    by (simp add: process_idle [OF assms] refresh_run_data(1))
next
  show "\<not> processing (snd (process_all_scores w self s))"
    by (rule process_flag [OF assms])
qed

text \<open>
  Claim C9. A failing write is absorbed: \<^verbatim>\<open>set_json\<close> returns \<^verbatim>\<open>False\<close> and leaves the
  store as it was, and the refresh still returns the batch it built, the same batch it
  returns when every write succeeds.
\<close>

theorem cache_write_failure_absorbed:
  assumes "\<not> processing s" and "ingest w = IngestReturns (Some data)"
  shows "(setex_fails w (json_key key) \<longrightarrow> set_json w r key v ttl = (r, False))
     \<and> fst (process_all_scores w self s) = RValue (JBatch (batch_of w self data))
     \<and> fst (process_all_scores w self s)
         = fst (process_all_scores (w\<lparr>setex_fails := (\<lambda>k. False)\<rparr>) self s)"
proof -
  have i: "ingest (w\<lparr>setex_fails := (\<lambda>k. False)\<rparr>) = IngestReturns (Some data)"
    using assms(2) by simp
  show ?thesis
    by (simp add: set_json_def process_idle [OF assms(1)] refresh_run_data(1) [OF assms(2)]
          refresh_run_data(1) [OF i] batch_of_setex)
qed

text \<open>
  Claim C8. \<^verbatim>\<open>get_latest_scores\<close> returns a batch read from the cache and leaves the
  state alone. When the read yields nothing it is one call of \<^verbatim>\<open>process_all_scores\<close>,
  whose result it returns, and ingestion is started at most once. When that refresh
  builds a batch and its write is accepted, ingestion was started exactly once, and the
  next call that can read the cache returns the same batch and leaves the state alone.
\<close>

theorem get_latest_cold_start:
  "(get_json w (cache s) ''latest_scores'' = Some (JBatch b)
      \<longrightarrow> get_latest_scores w self s = (RValue (JBatch b), s))
   \<and> (get_json w (cache s) ''latest_scores'' = None
      \<longrightarrow> get_latest_scores w self s = process_all_scores w self s
          \<and> ingest_calls (snd (get_latest_scores w self s)) \<le> ingest_calls s + 1)
   \<and> (get_json w (cache s) ''latest_scores'' = None \<and> \<not> processing s
        \<and> ingest w = IngestReturns (Some data)
        \<and> \<not> setex_fails w (json_key ''latest_scores'')
        \<and> \<not> get_fails w' (json_key ''latest_scores'')
      \<longrightarrow> ingest_calls (snd (get_latest_scores w self s)) = ingest_calls s + 1
          \<and> get_latest_scores w' self (snd (get_latest_scores w self s))
              = get_latest_scores w self s)"
proof (intro conjI impI)
  assume "get_json w (cache s) ''latest_scores'' = Some (JBatch b)"
  then show "get_latest_scores w self s = (RValue (JBatch b), s)"
    by (simp add: get_latest_scores_def)
next
  assume "get_json w (cache s) ''latest_scores'' = None"
  then show "get_latest_scores w self s = process_all_scores w self s"
    by (simp add: get_latest_scores_def)
next
  assume "get_json w (cache s) ''latest_scores'' = None"
  then show "ingest_calls (snd (get_latest_scores w self s)) \<le> ingest_calls s + 1"
    by (simp add: get_latest_scores_def process_ingest_calls)
next
  assume a: "get_json w (cache s) ''latest_scores'' = None \<and> \<not> processing s
        \<and> ingest w = IngestReturns (Some data)
        \<and> \<not> setex_fails w (json_key ''latest_scores'')
        \<and> \<not> get_fails w' (json_key ''latest_scores'')"
  then show "ingest_calls (snd (get_latest_scores w self s)) = ingest_calls s + 1"
    by (simp add: get_latest_scores_def process_ingest_calls)
next
  assume a: "get_json w (cache s) ''latest_scores'' = None \<and> \<not> processing s
        \<and> ingest w = IngestReturns (Some data)
        \<and> \<not> setex_fails w (json_key ''latest_scores'')
        \<and> \<not> get_fails w' (json_key ''latest_scores'')"
  then have first: "get_latest_scores w self s = refresh_run w self (refresh_begin s)"
    by (simp add: get_latest_scores_def process_idle)
  from a have d: "ingest w = IngestReturns (Some data)" by simp
  let ?s1 = "snd (refresh_run w self (refresh_begin s))"
  from a have "cache ?s1 (json_key ''latest_scores'') = Some (JBatch (batch_of w self data))"
    by (simp add: refresh_run_data(2) [OF d] persist_latest)
  with a have "get_json w' (cache ?s1) ''latest_scores'' = Some (JBatch (batch_of w self data))"
    by (simp add: get_json_def)
  then have "get_latest_scores w' self ?s1 = (RValue (JBatch (batch_of w self data)), ?s1)"
    by (simp add: get_latest_scores_def)
  also have "\<dots> = refresh_run w self (refresh_begin s)"
    using refresh_run_data(1) [OF d, of self "refresh_begin s"]
    by (cases "refresh_run w self (refresh_begin s)") simp
  finally show "get_latest_scores w' self (snd (get_latest_scores w self s))
              = get_latest_scores w self s"
    by (simp add: first)
qed


section \<open>The orchestrator on concrete inputs\<close>

lemma failing_ingest:
  "ingest_all_data failing_source now =
     Some \<lparr>financial = map (\<lambda>t. (t, [])) tickers,
           news = map (\<lambda>t. (t, [(''sentiment_score'', PNum (1 / 2)), (''news_count'', PNum 0)]))
                    tickers,
           macro = [], ingest_timestamp = now\<rparr>"
  by (simp add: ingest_all_data_def failing_source_def tickers_def Let_def)

lemma failing_ingest_empty: "dict_of (map (\<lambda>t. (t, [])) ks) t = []"
  by (induction ks) (simp_all add: dict_of_def)

lemma example_score:
  "calculate_score (example_scorer 800) ''AAPL''
      [(''debt_to_equity'', PNum (3 / 10)), (''roe'', PNum (1 / 5))]
      [(''sentiment_score'', PNum (4 / 5))] [] now
     = Inr \<lparr>ticker = ''AAPL'', score = 800, risk_level = ''Low Risk'', color = ''green'',
            contributions = map (\<lambda>n. (n, 0)) feature_names, explanation = ''AAPL'',
            timestamp = now\<rparr>"
  by (simp add: calculate_score_def calculate_score_try_def example_scorer_def
        extract_features_def extract_features_try_def dict_get_def Let_def feature_names_def
        risk_band_def py_round_def round_half_even_def)

lemma example_gathered:
  "run_in_executor w ''AAPL'' = Runs \<Longrightarrow>
   gathered_results w (example_scorer 800) example_data =
     [Dict \<lparr>ticker = ''AAPL'', score = 800, risk_level = ''Low Risk'', color = ''green'',
            contributions = map (\<lambda>n. (n, 0)) feature_names, explanation = ''AAPL'',
            timestamp = score_clock w ''AAPL''\<rparr>]"
  by (simp add: gathered_results_def example_data_def dict_of_def Let_def
        calculate_score_async_def example_score)

lemma example_batch:
  "run_in_executor w ''AAPL'' = Runs \<Longrightarrow>
   batch_of w (example_scorer 800) example_data =
     \<lparr>scores = [(''AAPL'',
          \<lparr>ticker = ''AAPL'', score = 800, risk_level = ''Low Risk'', color = ''green'',
            contributions = map (\<lambda>n. (n, 0)) feature_names, explanation = ''AAPL'',
            timestamp = score_clock w ''AAPL''\<rparr>)],
      data_timestamp = Some ''2025-01-01T00:00:00'',
      processing_timestamp = processing_clock w, ticker_count = 1\<rparr>"
  by (simp add: batch_of_def example_gathered) (simp add: example_data_def)

theorem batch_membership_witness:
  "fst (process_all_scores (example_world (IngestReturns (Some example_data)))
          (example_scorer 800) initial)
     = RValue (JBatch (batch_of (example_world (IngestReturns (Some example_data)))
                          (example_scorer 800) example_data))
   \<and> ticker_count (batch_of (example_world (IngestReturns (Some example_data)))
                          (example_scorer 800) example_data) = 1
   \<and> map fst (scores (batch_of (example_world (IngestReturns (Some example_data)))
                          (example_scorer 800) example_data)) = [''AAPL'']
   \<and> ''JPM'' \<notin> fst ` set (scores (batch_of (example_world (IngestReturns (Some example_data)))
                          (example_scorer 800) example_data))"
proof -
  let ?w = "example_world (IngestReturns (Some example_data))"
  let ?sc = "example_scorer 800"
  have idle: "\<not> processing initial" by (simp add: initial_def)
  have ing: "ingest ?w = IngestReturns (Some example_data)" by (simp add: example_world_def)
  have runs: "run_in_executor ?w ''AAPL'' = Runs" by (simp add: example_world_def)
  have jpm: "''JPM'' \<in> set tickers" by (simp add: tickers_def)
  have empty: "dict_of (financial example_data) ''JPM'' = []"
    by (simp add: example_data_def dict_of_def)
  from batch_membership [OF idle ing, of ?sc] obtain b where
    b: "fst (process_all_scores ?w ?sc initial) = RValue (JBatch b)"
       "ticker_count b = length (scores b)"
       "\<forall>t \<in> set tickers. dict_of (financial example_data) t = [] \<longrightarrow> t \<notin> fst ` set (scores b)"
    by blast
  have eq: "fst (process_all_scores ?w ?sc initial) = RValue (JBatch (batch_of ?w ?sc example_data))"
    by (simp add: process_idle [OF idle] refresh_run_data(1) [OF ing])
  with b(1) have "b = batch_of ?w ?sc example_data" by simp
  with b jpm empty eq show ?thesis by (auto simp: example_batch [OF runs])
qed

text \<open>
  When ingestion raises, or returns the empty dictionary, the refresh returns the empty
  dictionary: it has no score mapping, no entity count and no processing timestamp.
\<close>

theorem refresh_failure_counterexample:
  "result_keys (fst (process_all_scores (example_world (IngestRaises RuntimeError))
                       (example_scorer 800) initial)) = []
   \<and> result_keys (fst (process_all_scores (example_world (IngestReturns None))
                       (example_scorer 800) initial)) = []"
  by (simp add: process_all_scores_def initial_def refresh_run_def refresh_try_def
        refresh_begin_def example_world_def)

theorem refresh_failure_returns_witness:
  "process_all_scores (example_world (IngestRaises RuntimeError)) (example_scorer 800) initial
     = (REmpty, initial\<lparr>ingest_calls := 1\<rparr>)
   \<and> fst (process_all_scores
            (example_world (IngestReturns (ingest_all_data failing_source ''2025-01-01T00:00:00'')))
            (example_scorer 800) initial)
       = RValue (JBatch \<lparr>scores = [], data_timestamp = Some ''2025-01-01T00:00:00'',
                         processing_timestamp = ''2025-01-01T00:00:02'', ticker_count = 0\<rparr>)
   \<and> \<not> processing (snd (process_all_scores
            (example_world (IngestReturns (ingest_all_data failing_source ''2025-01-01T00:00:00'')))
            (example_scorer 800) initial))"
proof -
  let ?sc = "example_scorer 800"
  let ?d = "\<lparr>financial = map (\<lambda>t. (t, [])) tickers,
           news = map (\<lambda>t. (t, [(''sentiment_score'', PNum (1 / 2)), (''news_count'', PNum 0)]))
                    tickers,
           macro = [], ingest_timestamp = ''2025-01-01T00:00:00''\<rparr>"
  let ?w = "example_world (IngestReturns (ingest_all_data failing_source ''2025-01-01T00:00:00''))"
  have idle: "\<not> processing initial" by (simp add: initial_def)
  have raised: "ingest (example_world (IngestRaises RuntimeError)) = IngestReturns None
      \<or> ingest (example_world (IngestRaises RuntimeError)) = IngestRaises RuntimeError"
    by (simp add: example_world_def)
  have failed: "ingest ?w = IngestReturns (Some ?d) \<and> (\<forall>t. dict_of (financial ?d) t = [])"
    by (simp add: example_world_def failing_ingest failing_ingest_empty)
  note a = refresh_failure_returns [OF idle, of "example_world (IngestRaises RuntimeError)"
             RuntimeError ?sc ?d]
  note b = refresh_failure_returns [OF idle, of ?w RuntimeError ?sc ?d]
  from mp [OF a [THEN conjunct1] raised]
  have one: "process_all_scores (example_world (IngestRaises RuntimeError)) ?sc initial
     = (REmpty, initial\<lparr>ingest_calls := 1\<rparr>)"
    by (simp add: initial_def)
  from mp [OF b [THEN conjunct2, THEN conjunct1] failed]
  have two: "fst (process_all_scores ?w ?sc initial)
       = RValue (JBatch \<lparr>scores = [], data_timestamp = Some ''2025-01-01T00:00:00'',
                         processing_timestamp = ''2025-01-01T00:00:02'', ticker_count = 0\<rparr>)"
    by (simp add: example_world_def)
  from one two b [THEN conjunct2, THEN conjunct2] show ?thesis by blast
qed

theorem cache_write_failure_absorbed_witness:
  "set_json (example_world (IngestReturns (Some example_data))\<lparr>setex_fails := (\<lambda>k. True)\<rparr>)
       Map.empty ''latest_scores'' (JHistory []) 3600 = (Map.empty, False)
   \<and> fst (process_all_scores
            (example_world (IngestReturns (Some example_data))\<lparr>setex_fails := (\<lambda>k. True)\<rparr>)
            (example_scorer 800) initial)
       = fst (process_all_scores (example_world (IngestReturns (Some example_data)))
                (example_scorer 800) initial)
   \<and> map fst (scores (batch_of
            (example_world (IngestReturns (Some example_data))\<lparr>setex_fails := (\<lambda>k. True)\<rparr>)
            (example_scorer 800) example_data)) = [''AAPL'']
   \<and> fst (process_all_scores
            (example_world (IngestReturns (Some example_data))\<lparr>setex_fails := (\<lambda>k. True)\<rparr>)
            (example_scorer 800) initial)
       = RValue (JBatch (batch_of
            (example_world (IngestReturns (Some example_data))\<lparr>setex_fails := (\<lambda>k. True)\<rparr>)
            (example_scorer 800) example_data))"
proof -
  let ?w = "example_world (IngestReturns (Some example_data))\<lparr>setex_fails := (\<lambda>k. True)\<rparr>"
  let ?sc = "example_scorer 800"
  have idle: "\<not> processing initial" by (simp add: initial_def)
  have ing: "ingest ?w = IngestReturns (Some example_data)" by (simp add: example_world_def)
  have runs: "run_in_executor ?w ''AAPL'' = Runs" by (simp add: example_world_def)
  have same: "?w\<lparr>setex_fails := (\<lambda>k. False)\<rparr> = example_world (IngestReturns (Some example_data))"
    by (simp add: example_world_def)
  have fails: "setex_fails ?w (json_key ''latest_scores'')" by simp
  note a = cache_write_failure_absorbed [OF idle ing, of "''latest_scores''" Map.empty
             "JHistory []" 3600 ?sc]
  from mp [OF a [THEN conjunct1] fails]
  have one: "set_json ?w Map.empty ''latest_scores'' (JHistory []) 3600 = (Map.empty, False)" .
  from a [THEN conjunct2, THEN conjunct2]
  have two: "fst (process_all_scores ?w ?sc initial)
       = fst (process_all_scores (example_world (IngestReturns (Some example_data))) ?sc initial)"
    unfolding same .
  have three: "map fst (scores (batch_of ?w ?sc example_data)) = [''AAPL'']"
    by (simp add: example_batch [OF runs])
  from one two three a [THEN conjunct2, THEN conjunct1] show ?thesis by blast
qed

theorem get_latest_cold_start_witness:
  "get_latest_scores (example_world (IngestReturns (Some example_data))) (example_scorer 800) initial
     = process_all_scores (example_world (IngestReturns (Some example_data))) (example_scorer 800)
         initial
   \<and> ingest_calls (snd (get_latest_scores (example_world (IngestReturns (Some example_data)))
                          (example_scorer 800) initial)) = 1
   \<and> get_latest_scores (example_world (IngestReturns (Some example_data))) (example_scorer 800)
       (snd (get_latest_scores (example_world (IngestReturns (Some example_data)))
               (example_scorer 800) initial))
     = get_latest_scores (example_world (IngestReturns (Some example_data))) (example_scorer 800)
         initial
   \<and> fst (get_latest_scores (example_world (IngestReturns (Some example_data)))
            (example_scorer 800) initial)
     = RValue (JBatch (batch_of (example_world (IngestReturns (Some example_data)))
                          (example_scorer 800) example_data))"
proof -
  let ?w = "example_world (IngestReturns (Some example_data))"
  let ?sc = "example_scorer 800"
  have idle: "\<not> processing initial" by (simp add: initial_def)
  have ing: "ingest ?w = IngestReturns (Some example_data)" by (simp add: example_world_def)
  have none: "get_json ?w (cache initial) ''latest_scores'' = None"
    by (simp add: get_json_def initial_def example_world_def)
  have up: "\<not> setex_fails ?w (json_key ''latest_scores'')"
           "\<not> get_fails ?w (json_key ''latest_scores'')"
    by (simp_all add: example_world_def)
  note a = get_latest_cold_start [of ?w initial "batch_of ?w ?sc example_data" ?sc example_data ?w]
  from mp [OF a [THEN conjunct2, THEN conjunct1] none]
  have one: "get_latest_scores ?w ?sc initial = process_all_scores ?w ?sc initial" by blast
  have hyp: "get_json ?w (cache initial) ''latest_scores'' = None \<and> \<not> processing initial
        \<and> ingest ?w = IngestReturns (Some example_data)
        \<and> \<not> setex_fails ?w (json_key ''latest_scores'')
        \<and> \<not> get_fails ?w (json_key ''latest_scores'')"
    using none idle ing up by blast
  from mp [OF a [THEN conjunct2, THEN conjunct2] hyp]
  have two: "ingest_calls (snd (get_latest_scores ?w ?sc initial)) = 1"
    and three: "get_latest_scores ?w ?sc (snd (get_latest_scores ?w ?sc initial))
                  = get_latest_scores ?w ?sc initial"
    by (simp_all add: initial_def)
  have four: "fst (get_latest_scores ?w ?sc initial)
     = RValue (JBatch (batch_of ?w ?sc example_data))"
    unfolding one by (simp add: process_idle [OF idle] refresh_run_data(1) [OF ing])
  from one two three four show ?thesis by blast
qed

end
